theory Spec2Isabelle
  imports Main "HOL-Library.Word"
begin

section \<open>Values of the plugin framework\<close>

text \<open>
  A \<^verbatim>\<open>types.String\<close>, \<^verbatim>\<open>types.Bool\<close> or \<^verbatim>\<open>types.Int64\<close> of the plugin framework is in one
  of three states: null, unknown, or known with a value. \<^verbatim>\<open>IsNull()\<close> holds of the null
  state only; \<^verbatim>\<open>ValueString()\<close>, \<^verbatim>\<open>ValueBool()\<close> and \<^verbatim>\<open>ValueInt64()\<close> return the zero value
  of the Go type unless the value is known.
\<close>

datatype 'a tfval = Null | Unknown | Known 'a

definition IsNull :: "'a tfval \<Rightarrow> bool" where
  "IsNull v = (case v of Null \<Rightarrow> True | Unknown \<Rightarrow> False | Known _ \<Rightarrow> False)"

definition ValueString :: "string tfval \<Rightarrow> string" where
  "ValueString v = (case v of Known s \<Rightarrow> s | Null \<Rightarrow> [] | Unknown \<Rightarrow> [])"

definition ValueBool :: "bool tfval \<Rightarrow> bool" where
  "ValueBool v = (case v of Known b \<Rightarrow> b | Null \<Rightarrow> False | Unknown \<Rightarrow> False)"

definition ValueInt64 :: "64 word tfval \<Rightarrow> 64 word" where
  "ValueInt64 v = (case v of Known n \<Rightarrow> n | Null \<Rightarrow> 0 | Unknown \<Rightarrow> 0)"

text \<open>
  The elements of a \<^verbatim>\<open>types.List\<close> or \<^verbatim>\<open>types.Map\<close> are \<^verbatim>\<open>attr.Value\<close>s; the code recovers
  the element type by a checked type assertion (\<^verbatim>\<open>elem.(types.String)\<close>).
\<close>

datatype attr_value = StringV "string tfval" | BoolV "bool tfval" | Int64V "64 word tfval"

type_synonym tflist = "attr_value list tfval"
type_synonym tfmap = "(string \<times> attr_value) list tfval"

definition ListElements :: "tflist \<Rightarrow> attr_value list" where
  "ListElements l = (case l of Known xs \<Rightarrow> xs | Null \<Rightarrow> [] | Unknown \<Rightarrow> [])"

definition MapElements :: "tfmap \<Rightarrow> (string \<times> attr_value) list" where
  "MapElements m = (case m of Known kvs \<Rightarrow> kvs | Null \<Rightarrow> [] | Unknown \<Rightarrow> [])"

section \<open>The declarative model\<close>

record PatchJSON6902Model =
  PatchModel_Group :: "string tfval"
  PatchModel_Version :: "string tfval"
  PatchModel_Kind :: "string tfval"
  PatchModel_Patch :: "string tfval"

record MountModel =
  MountModel_HostPath :: "string tfval"
  MountModel_ContainerPath :: "string tfval"
  MountModel_ReadOnly :: "bool tfval"
  MountModel_SelinuxRelabel :: "bool tfval"
  MountModel_Propagation :: "string tfval"

record PortMappingModel =
  PortModel_ContainerPort :: "64 word tfval"
  PortModel_HostPort :: "64 word tfval"
  PortModel_ListenAddress :: "string tfval"
  PortModel_Protocol :: "string tfval"

record NodeModel =
  NodeModel_Role :: "string tfval"
  NodeModel_Image :: "string tfval"
  NodeModel_Labels :: tfmap
  NodeModel_ExtraMounts :: "MountModel list"
  NodeModel_ExtraPortMappings :: "PortMappingModel list"
  NodeModel_KubeadmConfigPatches :: tflist
  NodeModel_KubeadmConfigPatchesJSON6902 :: "PatchJSON6902Model list"

record NetworkingModel =
  NetModel_IPFamily :: "string tfval"
  NetModel_APIServerPort :: "64 word tfval"
  NetModel_APIServerAddress :: "string tfval"
  NetModel_PodSubnet :: "string tfval"
  NetModel_ServiceSubnet :: "string tfval"
  NetModel_DisableDefaultCNI :: "bool tfval"
  NetModel_KubeProxyMode :: "string tfval"
  NetModel_DNSSearch :: tflist

text \<open>
  \<^verbatim>\<open>ClusterResourceModel\<close>. The field \<^verbatim>\<open>WaitForNodesReady\<close> is the one \<^verbatim>\<open>Create\<close> reads for the
  schema attribute \<^verbatim>\<open>wait_for_nodes_ready\<close>. The pointer \<^verbatim>\<open>*NetworkingModel\<close> is an option.
\<close>

record ClusterResourceModel =
  Model_ID :: "string tfval"
  Model_Name :: "string tfval"
  Model_NodeImage :: "string tfval"
  Model_WaitForReady :: "64 word tfval"
  Model_WaitForNodesReady :: "bool tfval"
  Model_Networking :: "NetworkingModel option"
  Model_FeatureGates :: tfmap
  Model_RuntimeConfig :: tfmap
  Model_KubeadmConfigPatches :: tflist
  Model_KubeadmConfigPatchesJSON6902 :: "PatchJSON6902Model list"
  Model_ContainerdConfigPatches :: tflist
  Model_ContainerdConfigPatchesJSON6902 :: tflist
  Model_Kubeconfig :: "string tfval"
  Model_KubeconfigPath :: "string tfval"
  Model_ClientCertificate :: "string tfval"
  Model_ClientKey :: "string tfval"
  Model_ClusterCaCertificate :: "string tfval"
  Model_Endpoint :: "string tfval"
  Model_Nodes :: "NodeModel list"

section \<open>The backend's configuration types (v1alpha4)\<close>

text \<open>
  The enumerations of the backend's configuration format are Go string types. A nil slice
  is the empty list; a nil map and the pointer \<^verbatim>\<open>*[]string\<close> are options.
\<close>

type_synonym NodeRole = string
type_synonym ClusterIPFamily = string
type_synonym ProxyMode = string
type_synonym MountPropagation = string
type_synonym PortMappingProtocol = string

definition ControlPlaneRole :: NodeRole where "ControlPlaneRole = ''control-plane''"
definition WorkerRole :: NodeRole where "WorkerRole = ''worker''"

text \<open>The constants of the other enumerations, as the schema documents them.\<close>

definition knownRoles :: "NodeRole list" where
  "knownRoles = [ControlPlaneRole, WorkerRole]"
definition knownIPFamilies :: "ClusterIPFamily list" where
  "knownIPFamilies = [''ipv4'', ''ipv6'', ''dual'']"
definition knownProxyModes :: "ProxyMode list" where
  "knownProxyModes = [''iptables'', ''ipvs'', ''nftables'']"
definition knownPropagations :: "MountPropagation list" where
  "knownPropagations = [''None'', ''HostToContainer'', ''Bidirectional'']"
definition knownProtocols :: "PortMappingProtocol list" where
  "knownProtocols = [''TCP'', ''UDP'', ''SCTP'']"

record PatchJSON6902 =
  Patch_Group :: string
  Patch_Version :: string
  Patch_Kind :: string
  Patch_Patch :: string

record Mount =
  Mount_HostPath :: string
  Mount_ContainerPath :: string
  Mount_Readonly :: bool
  Mount_SelinuxRelabel :: bool
  Mount_Propagation :: MountPropagation

record PortMapping =
  Port_ContainerPort :: "32 word"
  Port_HostPort :: "32 word"
  Port_ListenAddress :: string
  Port_Protocol :: PortMappingProtocol

record Node =
  Node_Role :: NodeRole
  Node_Image :: string
  Node_Labels :: "(string \<rightharpoonup> string) option"
  Node_ExtraMounts :: "Mount list"
  Node_ExtraPortMappings :: "PortMapping list"
  Node_KubeadmConfigPatches :: "string list"
  Node_KubeadmConfigPatchesJSON6902 :: "PatchJSON6902 list"

record Networking =
  Net_IPFamily :: ClusterIPFamily
  Net_APIServerPort :: "32 word"
  Net_APIServerAddress :: string
  Net_PodSubnet :: string
  Net_ServiceSubnet :: string
  Net_DisableDefaultCNI :: bool
  Net_KubeProxyMode :: ProxyMode
  Net_DNSSearch :: "string list option"

record Cluster =
  Cluster_Kind :: string
  Cluster_APIVersion :: string
  Cluster_Name :: string
  Cluster_Nodes :: "Node list"
  Cluster_Networking :: Networking
  Cluster_FeatureGates :: "(string \<rightharpoonup> bool) option"
  Cluster_RuntimeConfig :: "(string \<rightharpoonup> string) option"
  Cluster_KubeadmConfigPatches :: "string list"
  Cluster_KubeadmConfigPatchesJSON6902 :: "PatchJSON6902 list"
  Cluster_ContainerdConfigPatches :: "string list"
  Cluster_ContainerdConfigPatchesJSON6902 :: "string list"

text \<open>The zero values of the Go structs.\<close>

definition zeroPatch :: PatchJSON6902 where
  "zeroPatch = \<lparr>Patch_Group = [], Patch_Version = [], Patch_Kind = [], Patch_Patch = []\<rparr>"

definition zeroMount :: Mount where
  "zeroMount = \<lparr>Mount_HostPath = [], Mount_ContainerPath = [], Mount_Readonly = False,
     Mount_SelinuxRelabel = False, Mount_Propagation = []\<rparr>"

definition zeroPortMapping :: PortMapping where
  "zeroPortMapping = \<lparr>Port_ContainerPort = 0, Port_HostPort = 0, Port_ListenAddress = [],
     Port_Protocol = []\<rparr>"

definition zeroNode :: Node where
  "zeroNode = \<lparr>Node_Role = [], Node_Image = [], Node_Labels = None, Node_ExtraMounts = [],
     Node_ExtraPortMappings = [], Node_KubeadmConfigPatches = [],
     Node_KubeadmConfigPatchesJSON6902 = []\<rparr>"

definition zeroNetworking :: Networking where
  "zeroNetworking = \<lparr>Net_IPFamily = [], Net_APIServerPort = 0, Net_APIServerAddress = [],
     Net_PodSubnet = [], Net_ServiceSubnet = [], Net_DisableDefaultCNI = False,
     Net_KubeProxyMode = [], Net_DNSSearch = None\<rparr>"

section \<open>The loops of the synthesizer\<close>

text \<open>
  \<^verbatim>\<open>for _, elem := range l.Elements() { if strVal, ok := elem.(types.String); ok &&
  !strVal.IsNull() { patches = append(patches, strVal.ValueString()) } }\<close>,
  started on the empty slice.
\<close>

fun appendStrings :: "attr_value list \<Rightarrow> string list \<Rightarrow> string list" where
  "appendStrings [] patches = patches"
| "appendStrings (elem # elems) patches =
     appendStrings elems
       (case elem of
          StringV strVal \<Rightarrow> if \<not> IsNull strVal then patches @ [ValueString strVal] else patches
        | BoolV _ \<Rightarrow> patches
        | Int64V _ \<Rightarrow> patches)"

text \<open>
  \<^verbatim>\<open>out := make([]T, len(xs)); for i, x := range xs { out[i] = f(x) }\<close>: the slice is allocated
  at its final length, filled with zero values, and assigned index by index.
\<close>

fun assignEach :: "('a \<Rightarrow> 'b) \<Rightarrow> nat \<Rightarrow> 'a list \<Rightarrow> 'b list \<Rightarrow> 'b list" where
  "assignEach f i [] out = out"
| "assignEach f i (x # xs) out = assignEach f (Suc i) xs (out[i := f x])"

definition makeAndAssign :: "'b \<Rightarrow> ('a \<Rightarrow> 'b) \<Rightarrow> 'a list \<Rightarrow> 'b list" where
  "makeAndAssign zero f xs = assignEach f 0 xs (replicate (length xs) zero)"

text \<open>The map loops: \<^verbatim>\<open>for k, v := range m.Elements() { ...; out[k] = v.Value() }\<close>.\<close>

fun assignBools :: "(string \<times> attr_value) list \<Rightarrow> (string \<rightharpoonup> bool) \<Rightarrow> (string \<rightharpoonup> bool)" where
  "assignBools [] out = out"
| "assignBools ((k, v) # kvs) out =
     assignBools kvs
       (case v of
          BoolV boolVal \<Rightarrow> if \<not> IsNull boolVal then out(k \<mapsto> ValueBool boolVal) else out
        | StringV _ \<Rightarrow> out
        | Int64V _ \<Rightarrow> out)"

fun assignStrings :: "(string \<times> attr_value) list \<Rightarrow> (string \<rightharpoonup> string) \<Rightarrow> (string \<rightharpoonup> string)" where
  "assignStrings [] out = out"
| "assignStrings ((k, v) # kvs) out =
     assignStrings kvs
       (case v of
          StringV strVal \<Rightarrow> if \<not> IsNull strVal then out(k \<mapsto> ValueString strVal) else out
        | BoolV _ \<Rightarrow> out
        | Int64V _ \<Rightarrow> out)"

text \<open>The label loop of \<^verbatim>\<open>buildNodeConfig\<close> has no null check.\<close>

fun assignLabels :: "(string \<times> attr_value) list \<Rightarrow> (string \<rightharpoonup> string) \<Rightarrow> (string \<rightharpoonup> string)" where
  "assignLabels [] labels = labels"
| "assignLabels ((k, v) # kvs) labels =
     assignLabels kvs
       (case v of
          StringV strVal \<Rightarrow> labels(k \<mapsto> ValueString strVal)
        | BoolV _ \<Rightarrow> labels
        | Int64V _ \<Rightarrow> labels)"

section \<open>The config synthesizer\<close>

definition buildPatch :: "PatchJSON6902Model \<Rightarrow> PatchJSON6902" where
  "buildPatch p = \<lparr>Patch_Group = ValueString (PatchModel_Group p),
     Patch_Version = ValueString (PatchModel_Version p),
     Patch_Kind = ValueString (PatchModel_Kind p),
     Patch_Patch = ValueString (PatchModel_Patch p)\<rparr>"

text \<open>The body of the mount loop: the struct literal, then the guarded assignment.\<close>

definition buildMount :: "MountModel \<Rightarrow> Mount" where
  "buildMount mount =
     (let m = \<lparr>Mount_HostPath = ValueString (MountModel_HostPath mount),
                Mount_ContainerPath = ValueString (MountModel_ContainerPath mount),
                Mount_Readonly = ValueBool (MountModel_ReadOnly mount),
                Mount_SelinuxRelabel = ValueBool (MountModel_SelinuxRelabel mount),
                Mount_Propagation = []\<rparr>
      in if \<not> IsNull (MountModel_Propagation mount)
         then m\<lparr>Mount_Propagation := ValueString (MountModel_Propagation mount)\<rparr>
         else m)"

text \<open>The body of the port-mapping loop; \<^verbatim>\<open>int32(x)\<close> keeps the low 32 bits.\<close>

definition buildPortMapping :: "PortMappingModel \<Rightarrow> PortMapping" where
  "buildPortMapping pm =
     (let p0 = \<lparr>Port_ContainerPort = ucast (ValueInt64 (PortModel_ContainerPort pm)),
                 Port_HostPort = ucast (ValueInt64 (PortModel_HostPort pm)),
                 Port_ListenAddress = [], Port_Protocol = []\<rparr>;
          p1 = (if \<not> IsNull (PortModel_ListenAddress pm)
                then p0\<lparr>Port_ListenAddress := ValueString (PortModel_ListenAddress pm)\<rparr>
                else p0)
      in if \<not> IsNull (PortModel_Protocol pm)
         then p1\<lparr>Port_Protocol := ValueString (PortModel_Protocol pm)\<rparr>
         else p1)"

definition buildNodeConfig :: "NodeModel \<Rightarrow> Node" where
  "buildNodeConfig node =
     (let n0 = zeroNode;
          n1 = (if \<not> IsNull (NodeModel_Role node)
                then (if ValueString (NodeModel_Role node) = ''control-plane''
                      then n0\<lparr>Node_Role := ControlPlaneRole\<rparr>
                      else if ValueString (NodeModel_Role node) = ''worker''
                      then n0\<lparr>Node_Role := WorkerRole\<rparr>
                      else n0)
                else n0);
          n2 = (if \<not> IsNull (NodeModel_Image node) \<and> ValueString (NodeModel_Image node) \<noteq> []
                then n1\<lparr>Node_Image := ValueString (NodeModel_Image node)\<rparr>
                else n1);
          n3 = (if \<not> IsNull (NodeModel_Labels node)
                then n2\<lparr>Node_Labels :=
                        Some (assignLabels (MapElements (NodeModel_Labels node)) Map.empty)\<rparr>
                else n2);
          n4 = (if \<not> IsNull (NodeModel_KubeadmConfigPatches node)
                   \<and> length (ListElements (NodeModel_KubeadmConfigPatches node)) > 0
                then n3\<lparr>Node_KubeadmConfigPatches :=
                        appendStrings (ListElements (NodeModel_KubeadmConfigPatches node)) []\<rparr>
                else n3);
          n5 = (if length (NodeModel_KubeadmConfigPatchesJSON6902 node) > 0
                then n4\<lparr>Node_KubeadmConfigPatchesJSON6902 :=
                        makeAndAssign zeroPatch buildPatch
                          (NodeModel_KubeadmConfigPatchesJSON6902 node)\<rparr>
                else n4);
          n6 = (if length (NodeModel_ExtraMounts node) > 0
                then n5\<lparr>Node_ExtraMounts :=
                        makeAndAssign zeroMount buildMount (NodeModel_ExtraMounts node)\<rparr>
                else n5)
      in if length (NodeModel_ExtraPortMappings node) > 0
         then n6\<lparr>Node_ExtraPortMappings :=
                 makeAndAssign zeroPortMapping buildPortMapping (NodeModel_ExtraPortMappings node)\<rparr>
         else n6)"

definition buildNetworkingConfig :: "NetworkingModel \<Rightarrow> Networking" where
  "buildNetworkingConfig net =
     (let g0 = zeroNetworking;
          g1 = (if \<not> IsNull (NetModel_IPFamily net) \<and> ValueString (NetModel_IPFamily net) \<noteq> []
                then g0\<lparr>Net_IPFamily := ValueString (NetModel_IPFamily net)\<rparr> else g0);
          g2 = (if \<not> IsNull (NetModel_APIServerPort net)
                then g1\<lparr>Net_APIServerPort := ucast (ValueInt64 (NetModel_APIServerPort net))\<rparr>
                else g1);
          g3 = (if \<not> IsNull (NetModel_APIServerAddress net)
                   \<and> ValueString (NetModel_APIServerAddress net) \<noteq> []
                then g2\<lparr>Net_APIServerAddress := ValueString (NetModel_APIServerAddress net)\<rparr>
                else g2);
          g4 = (if \<not> IsNull (NetModel_PodSubnet net) \<and> ValueString (NetModel_PodSubnet net) \<noteq> []
                then g3\<lparr>Net_PodSubnet := ValueString (NetModel_PodSubnet net)\<rparr> else g3);
          g5 = (if \<not> IsNull (NetModel_ServiceSubnet net)
                   \<and> ValueString (NetModel_ServiceSubnet net) \<noteq> []
                then g4\<lparr>Net_ServiceSubnet := ValueString (NetModel_ServiceSubnet net)\<rparr> else g4);
          g6 = (if \<not> IsNull (NetModel_DisableDefaultCNI net)
                then g5\<lparr>Net_DisableDefaultCNI := ValueBool (NetModel_DisableDefaultCNI net)\<rparr>
                else g5);
          g7 = (if \<not> IsNull (NetModel_KubeProxyMode net)
                   \<and> ValueString (NetModel_KubeProxyMode net) \<noteq> []
                then g6\<lparr>Net_KubeProxyMode := ValueString (NetModel_KubeProxyMode net)\<rparr> else g6)
      in if \<not> IsNull (NetModel_DNSSearch net) \<and> length (ListElements (NetModel_DNSSearch net)) > 0
         then g7\<lparr>Net_DNSSearch := Some (appendStrings (ListElements (NetModel_DNSSearch net)) [])\<rparr>
         else g7)"

definition buildClusterConfig :: "ClusterResourceModel \<Rightarrow> Cluster" where
  "buildClusterConfig data =
     (let c0 = \<lparr>Cluster_Kind = ''Cluster'', Cluster_APIVersion = ''kind.x-k8s.io/v1alpha4'',
                 Cluster_Name = ValueString (Model_Name data), Cluster_Nodes = [],
                 Cluster_Networking = zeroNetworking, Cluster_FeatureGates = None,
                 Cluster_RuntimeConfig = None, Cluster_KubeadmConfigPatches = [],
                 Cluster_KubeadmConfigPatchesJSON6902 = [], Cluster_ContainerdConfigPatches = [],
                 Cluster_ContainerdConfigPatchesJSON6902 = []\<rparr>;
          c1 = (case Model_Networking data of
                  Some net \<Rightarrow> c0\<lparr>Cluster_Networking := buildNetworkingConfig net\<rparr>
                | None \<Rightarrow> c0);
          c2 = (if \<not> IsNull (Model_FeatureGates data)
                   \<and> length (MapElements (Model_FeatureGates data)) > 0
                then c1\<lparr>Cluster_FeatureGates :=
                        Some (assignBools (MapElements (Model_FeatureGates data)) Map.empty)\<rparr>
                else c1);
          c3 = (if \<not> IsNull (Model_RuntimeConfig data)
                   \<and> length (MapElements (Model_RuntimeConfig data)) > 0
                then c2\<lparr>Cluster_RuntimeConfig :=
                        Some (assignStrings (MapElements (Model_RuntimeConfig data)) Map.empty)\<rparr>
                else c2);
          c4 = (if \<not> IsNull (Model_KubeadmConfigPatches data)
                   \<and> length (ListElements (Model_KubeadmConfigPatches data)) > 0
                then c3\<lparr>Cluster_KubeadmConfigPatches :=
                        appendStrings (ListElements (Model_KubeadmConfigPatches data)) []\<rparr>
                else c3);
          c5 = (if length (Model_KubeadmConfigPatchesJSON6902 data) > 0
                then c4\<lparr>Cluster_KubeadmConfigPatchesJSON6902 :=
                        makeAndAssign zeroPatch buildPatch (Model_KubeadmConfigPatchesJSON6902 data)\<rparr>
                else c4);
          c6 = (if \<not> IsNull (Model_ContainerdConfigPatches data)
                   \<and> length (ListElements (Model_ContainerdConfigPatches data)) > 0
                then c5\<lparr>Cluster_ContainerdConfigPatches :=
                        appendStrings (ListElements (Model_ContainerdConfigPatches data)) []\<rparr>
                else c5);
          c7 = (if \<not> IsNull (Model_ContainerdConfigPatchesJSON6902 data)
                   \<and> length (ListElements (Model_ContainerdConfigPatchesJSON6902 data)) > 0
                then c6\<lparr>Cluster_ContainerdConfigPatchesJSON6902 :=
                        appendStrings (ListElements (Model_ContainerdConfigPatchesJSON6902 data)) []\<rparr>
                else c6)
      in if length (Model_Nodes data) > 0
         then c7\<lparr>Cluster_Nodes := makeAndAssign zeroNode buildNodeConfig (Model_Nodes data)\<rparr>
         else c7\<lparr>Cluster_Nodes := [zeroNode\<lparr>Node_Role := ControlPlaneRole\<rparr>,
                                     zeroNode\<lparr>Node_Role := WorkerRole\<rparr>]\<rparr>)"

section \<open>Errors and diagnostics\<close>

text \<open>
  Go errors as values. \<^verbatim>\<open>fmt.Errorf("...: %w", err)\<close> wraps an error behind a prefix;
  \<^verbatim>\<open>ctx.Err()\<close> is one of the two context errors; the time-out error of the readiness gate
  carries the duration it prints. An error of a library (the backend, the operating system,
  the YAML parser, the Kubernetes client) is opaque: only its message is known.
\<close>

datatype ctx_error = Canceled | DeadlineExceeded

datatype error =
    External string
  | ContextErr ctx_error
  | Wrapped string error
  | TimeoutWaiting int

text \<open>
  \<^verbatim>\<open>err.Error()\<close>. The rendering of a \<^verbatim>\<open>time.Duration\<close> under \<^verbatim>\<open>%v\<close> belongs to the Go
  library and is a parameter.
\<close>

fun Error :: "(int \<Rightarrow> string) \<Rightarrow> error \<Rightarrow> string" where
  "Error fmtDuration (External msg) = msg"
| "Error fmtDuration (ContextErr Canceled) = ''context canceled''"
| "Error fmtDuration (ContextErr DeadlineExceeded) = ''context deadline exceeded''"
| "Error fmtDuration (Wrapped prefix err) = prefix @ Error fmtDuration err"
| "Error fmtDuration (TimeoutWaiting timeout) =
     ''timeout waiting for nodes to be ready after '' @ fmtDuration timeout"

datatype Severity = SeverityError | SeverityWarning

record Diagnostic =
  Diag_Severity :: Severity
  Diag_Summary :: string
  Diag_Detail :: string

definition AddError :: "Diagnostic list \<Rightarrow> string \<Rightarrow> string \<Rightarrow> Diagnostic list" where
  "AddError diags summary detail =
     diags @ [\<lparr>Diag_Severity = SeverityError, Diag_Summary = summary, Diag_Detail = detail\<rparr>]"

fun HasError :: "Diagnostic list \<Rightarrow> bool" where
  "HasError [] = False"
| "HasError (d # ds) = (if Diag_Severity d = SeverityError then True else HasError ds)"

section \<open>The operating system: home directory, clock and files\<close>

text \<open>
  Times are nanoseconds, as \<^verbatim>\<open>time.Duration\<close> counts them. \<^verbatim>\<open>Time.Sub\<close> saturates at the
  64-bit range of a duration.
\<close>

definition Second :: int where "Second = 1000000000"

definition maxDuration :: int where "maxDuration = 2 ^ 63 - 1"
definition minDuration :: int where "minDuration = - (2 ^ 63)"

definition time_Sub :: "int \<Rightarrow> int \<Rightarrow> int" where
  "time_Sub t u =
     (let d = t - u
      in if d > maxDuration then maxDuration else if d < minDuration then minDuration else d)"

record FileInfo =
  ModTime :: int

text \<open>
  \<^verbatim>\<open>os_UserHomeDir\<close> is what \<^verbatim>\<open>os.UserHomeDir()\<close> returns, \<^verbatim>\<open>os_Now\<close> what \<^verbatim>\<open>time.Now()\<close>
  returns. A path can be refused by the system (permissions, I/O faults) on \<^verbatim>\<open>os.Stat\<close> or
  on \<^verbatim>\<open>os.Remove\<close> although the file is there.
\<close>

record OS =
  os_UserHomeDir :: "error + string"
  os_Now :: int
  os_Files :: "string \<rightharpoonup> FileInfo"
  os_StatRefused :: "string \<Rightarrow> bool"
  os_RemoveRefused :: "string \<Rightarrow> bool"

definition time_Since :: "OS \<Rightarrow> int \<Rightarrow> int" where
  "time_Since os t = time_Sub (os_Now os) t"

text \<open>\<^verbatim>\<open>filepath.Join\<close> on non-empty, already clean elements.\<close>

fun filepath_Join :: "string list \<Rightarrow> string" where
  "filepath_Join [] = []"
| "filepath_Join [e] = e"
| "filepath_Join (e # es) = e @ ''/'' @ filepath_Join es"

definition os_Stat :: "OS \<Rightarrow> string \<Rightarrow> error + FileInfo" where
  "os_Stat os name =
     (if os_StatRefused os name then Inl (External (''stat '' @ name @ '': permission denied''))
      else case os_Files os name of
             None \<Rightarrow> Inl (External (''stat '' @ name @ '': no such file or directory''))
           | Some info \<Rightarrow> Inr info)"

definition os_Remove :: "OS \<Rightarrow> string \<Rightarrow> error option \<times> OS" where
  "os_Remove os name =
     (if os_RemoveRefused os name
      then (Some (External (''remove '' @ name @ '': permission denied'')), os)
      else case os_Files os name of
             None \<Rightarrow> (Some (External (''remove '' @ name @ '': no such file or directory'')), os)
           | Some _ \<Rightarrow> (None, os\<lparr>os_Files := (os_Files os)(name := None)\<rparr>))"

section \<open>Lock recovery\<close>

definition cleanupStaleLockFile :: "OS \<Rightarrow> OS" where
  "cleanupStaleLockFile os =
     (case os_UserHomeDir os of
        Inl err \<Rightarrow> os
      | Inr homeDir \<Rightarrow>
          (let lockFile = filepath_Join [homeDir, ''.kube'', ''config.lock'']
           in case os_Stat os lockFile of
                Inl err \<Rightarrow> os
              | Inr info \<Rightarrow>
                  if time_Since os (ModTime info) > 60 * Second
                  then snd (os_Remove os lockFile)
                  else os))"

section \<open>The readiness gate\<close>

record NodeCondition =
  Cond_Type :: string
  Cond_Status :: string

record K8sNode =
  K8s_Name :: string
  K8s_Conditions :: "NodeCondition list"

definition NodeReady :: string where "NodeReady = ''Ready''"
definition ConditionTrue :: string where "ConditionTrue = ''True''"

text \<open>The inner loop over a node's conditions, with its \<^verbatim>\<open>break\<close>.\<close>

fun conditionsReady :: "NodeCondition list \<Rightarrow> bool \<Rightarrow> bool" where
  "conditionsReady [] nodeReady = nodeReady"
| "conditionsReady (condition # conditions) nodeReady =
     (if Cond_Type condition = NodeReady \<and> Cond_Status condition = ConditionTrue
      then True
      else conditionsReady conditions nodeReady)"

text \<open>The outer loop over the listed nodes, carrying \<^verbatim>\<open>allReady\<close> and \<^verbatim>\<open>notReadyNodes\<close>.\<close>

fun scanNodes :: "K8sNode list \<Rightarrow> bool \<times> string list \<Rightarrow> bool \<times> string list" where
  "scanNodes [] acc = acc"
| "scanNodes (node # nodes) (allReady, notReadyNodes) =
     (if \<not> conditionsReady (K8s_Conditions node) False
      then scanNodes nodes (False, notReadyNodes @ [K8s_Name node])
      else scanNodes nodes (allReady, notReadyNodes))"

text \<open>
  What the surroundings of one call of \<^verbatim>\<open>waitForAllNodesReady\<close> do: the results of creating,
  writing and closing the temporary file and of building the client; the instant at which
  the context is cancelled (if ever) and the error it then reports; the answer of the
  status endpoint to the \<open>k\<close>-th poll; and which ready case the runtime's \<^verbatim>\<open>select\<close> prefers
  at the \<open>k\<close>-th round when several are ready at once. The deferred removal of the
  temporary file has no effect on the result.
\<close>

datatype SelectCase = CaseDone | CaseTimeout | CaseTick

record WaitEnv =
  wait_CreateTemp :: "error + string"
  wait_WriteString :: "string \<Rightarrow> error option"
  wait_Close :: "error option"
  wait_BuildConfig :: "string \<Rightarrow> error option"
  wait_NewForConfig :: "error option"
  wait_CancelAt :: "int option"
  wait_CtxErr :: ctx_error
  wait_List :: "nat \<Rightarrow> error + K8sNode list"
  wait_Prefer :: "nat \<Rightarrow> SelectCase"

text \<open>
  The clock starts at 0 when the ticker and the time-out channel are made. The ticker
  fires every 5 seconds; the time-out channel is ready from the instant \<open>timeout\<close> on (at
  once when \<open>timeout \<le> 0\<close>); the context's channel is ready from its cancellation on. A poll
  takes no time on this clock, so round \<open>k\<close> of the loop starts at \<open>5k\<close> seconds and waits for
  the tick at \<open>5(k+1)\<close>. \<^verbatim>\<open>select\<close> sleeps until the first instant at which a case is ready and
  takes any one of the cases ready then.
\<close>

definition tickInterval :: int where "tickInterval = 5 * Second"

definition wakeTime :: "WaitEnv \<Rightarrow> int \<Rightarrow> nat \<Rightarrow> int" where
  "wakeTime e timeout k =
     (let now = tickInterval * int k;
          tickAt = tickInterval * (int k + 1);
          first = (case wait_CancelAt e of
                     None \<Rightarrow> min timeout tickAt
                   | Some c \<Rightarrow> min c (min timeout tickAt))
      in max now first)"

definition readyCases :: "WaitEnv \<Rightarrow> int \<Rightarrow> nat \<Rightarrow> SelectCase list" where
  "readyCases e timeout k =
     (let w = wakeTime e timeout k
      in (case wait_CancelAt e of
            None \<Rightarrow> []
          | Some c \<Rightarrow> if c \<le> w then [CaseDone] else [])
         @ (if timeout \<le> w then [CaseTimeout] else [])
         @ (if tickInterval * (int k + 1) \<le> w then [CaseTick] else []))"

definition selectCase :: "WaitEnv \<Rightarrow> int \<Rightarrow> nat \<Rightarrow> SelectCase" where
  "selectCase e timeout k =
     (let ready = readyCases e timeout k
      in if wait_Prefer e k \<in> set ready then wait_Prefer e k
         else case ready of [] \<Rightarrow> CaseTimeout | c # _ \<Rightarrow> c)"

function pollLoop :: "WaitEnv \<Rightarrow> int \<Rightarrow> nat \<Rightarrow> error option" where
  "pollLoop e timeout k =
     (case selectCase e timeout k of
        CaseDone \<Rightarrow> Some (ContextErr (wait_CtxErr e))
      | CaseTimeout \<Rightarrow> Some (TimeoutWaiting timeout)
      | CaseTick \<Rightarrow>
          (case wait_List e k of
             Inl err \<Rightarrow> pollLoop e timeout (Suc k)
           | Inr items \<Rightarrow>
               if length items = 0 then pollLoop e timeout (Suc k)
               else if fst (scanNodes items (True, [])) then None
               else pollLoop e timeout (Suc k)))"
  by pat_completeness auto

termination
proof (relation "measure (\<lambda>(e, timeout, k). nat (timeout - tickInterval * int k))")
  have tick: "tickInterval * (int k + 1) \<le> timeout"
    if "selectCase e timeout k = CaseTick" for e timeout k
  proof -
    have pos: "0 < tickInterval" by (simp add: tickInterval_def Second_def)
    have "CaseTick \<in> set (readyCases e timeout k)"
      using that
      by (auto simp: selectCase_def Let_def readyCases_def
          split: if_splits option.splits list.splits)
    then have "tickInterval * (int k + 1) \<le> wakeTime e timeout k"
      by (auto simp: readyCases_def Let_def split: if_splits option.splits)
    moreover have "tickInterval * int k < tickInterval * (int k + 1)"
      using pos by (simp add: algebra_simps)
    ultimately show ?thesis
      by (auto simp: wakeTime_def Let_def split: option.splits)
  qed
  have dec: "nat (timeout - tickInterval * int (Suc k)) < nat (timeout - tickInterval * int k)"
    if "selectCase e timeout k = CaseTick" for e timeout k
  proof -
    have pos: "0 < tickInterval" by (simp add: tickInterval_def Second_def)
    have "tickInterval * int k + tickInterval \<le> timeout"
      using tick [OF that] by (simp add: algebra_simps)
    then show ?thesis using pos by (simp add: algebra_simps)
  qed
  show "wf (measure (\<lambda>(e, timeout, k). nat (timeout - tickInterval * int k)))" by simp
  show "((e, timeout, Suc k), e, timeout, k)
          \<in> measure (\<lambda>(e, timeout, k). nat (timeout - tickInterval * int k))"
    if "selectCase e timeout k = CaseTick" for e timeout k
    using dec [OF that] by simp
  show "((e, timeout, Suc k), e, timeout, k)
          \<in> measure (\<lambda>(e, timeout, k). nat (timeout - tickInterval * int k))"
    if "selectCase e timeout k = CaseTick" for e timeout k
    using dec [OF that] by simp
  show "((e, timeout, Suc k), e, timeout, k)
          \<in> measure (\<lambda>(e, timeout, k). nat (timeout - tickInterval * int k))"
    if "selectCase e timeout k = CaseTick" for e timeout k
    using dec [OF that] by simp
qed

declare pollLoop.simps [simp del]

definition waitForAllNodesReady :: "WaitEnv \<Rightarrow> string \<Rightarrow> int \<Rightarrow> error option" where
  "waitForAllNodesReady e kubeconfigContent timeout =
     (case wait_CreateTemp e of
        Inl err \<Rightarrow> Some (Wrapped ''failed to create temp kubeconfig: '' err)
      | Inr tmpFile \<Rightarrow>
          (case wait_WriteString e kubeconfigContent of
             Some err \<Rightarrow> Some (Wrapped ''failed to write kubeconfig: '' err)
           | None \<Rightarrow>
               (case wait_Close e of
                  Some err \<Rightarrow> Some (Wrapped ''failed to close kubeconfig file: '' err)
                | None \<Rightarrow>
                    (case wait_BuildConfig e kubeconfigContent of
                       Some err \<Rightarrow> Some (Wrapped ''failed to build kubeconfig: '' err)
                     | None \<Rightarrow>
                         (case wait_NewForConfig e of
                            Some err \<Rightarrow> Some (Wrapped ''failed to create kubernetes client: '' err)
                          | None \<Rightarrow> pollLoop e timeout 0)))))"

text \<open>
  The five steps before the loop (temporary file made, written and closed, client
  configuration built, client made) all succeed.
\<close>

definition setupSucceeds :: "WaitEnv \<Rightarrow> string \<Rightarrow> bool" where
  "setupSucceeds e kubeconfigContent =
     ((case wait_CreateTemp e of Inl err \<Rightarrow> False | Inr tmpFile \<Rightarrow> True)
      \<and> wait_WriteString e kubeconfigContent = None
      \<and> wait_Close e = None
      \<and> wait_BuildConfig e kubeconfigContent = None
      \<and> wait_NewForConfig e = None)"

section \<open>The backend and the credential bundle\<close>

datatype CreateOption =
    CreateWithV1Alpha4Config Cluster
  | CreateWithWaitForReady int
  | CreateWithDisplayUsage bool
  | CreateWithDisplaySalutation bool
  | CreateWithNodeImage string

text \<open>
  The cluster provider of the backend library, over a backend state \<open>'b\<close> this code never
  inspects: \<^verbatim>\<open>Create\<close> and \<^verbatim>\<open>Delete\<close> change it and may fail, \<^verbatim>\<open>List\<close> and \<^verbatim>\<open>KubeConfig\<close> read it.
\<close>

record 'b Provider =
  provider_Create :: "string \<Rightarrow> CreateOption list \<Rightarrow> 'b \<Rightarrow> error option \<times> 'b"
  provider_Delete :: "string \<Rightarrow> string \<Rightarrow> 'b \<Rightarrow> error option \<times> 'b"
  provider_List :: "'b \<Rightarrow> error + string list"
  provider_KubeConfig :: "string \<Rightarrow> bool \<Rightarrow> 'b \<Rightarrow> error + string"

text \<open>
  What \<^verbatim>\<open>yaml.Unmarshal\<close> yields in an \<^verbatim>\<open>interface{}\<close>: nil, a boolean, a number, a string, a
  slice or a string-keyed map. A type assertion with \<^verbatim>\<open>ok\<close> is a match on the constructor.
\<close>

datatype yvalue =
    YNil
  | YBool bool
  | YNumber int
  | YString string
  | YSeq "yvalue list"
  | YMap "(string \<times> yvalue) list"

type_synonym ymap = "(string \<times> yvalue) list"

text \<open>
  The libraries around one operation: the provider, the YAML parser (into
  \<^verbatim>\<open>map[string]interface{}\<close>), the printing of durations, and the surroundings of the
  readiness gate.
\<close>

record 'b Env =
  env_provider :: "'b Provider"
  env_yaml_Unmarshal :: "string \<Rightarrow> error + ymap"
  env_fmtDuration :: "int \<Rightarrow> string"
  env_wait :: WaitEnv

text \<open>
  \<^verbatim>\<open>if xs, ok := data[section].([]interface{}); ok && len(xs) > 0 { if entry, ok :=
  xs[0].(map[string]interface{}); ok { if info, ok := entry[key].(map[string]interface{}); ok {\<close>
  ... the innermost map, when all three assertions hold.
\<close>

definition firstEntryInfo :: "ymap \<Rightarrow> string \<Rightarrow> string \<Rightarrow> ymap option" where
  "firstEntryInfo kubeconfigData section key =
     (case map_of kubeconfigData section of
        Some (YSeq xs) \<Rightarrow>
          (if length xs > 0
           then (case xs ! 0 of
                   YMap entry \<Rightarrow>
                     (case map_of entry key of
                        Some (YMap info) \<Rightarrow> Some info
                      | _ \<Rightarrow> None)
                 | _ \<Rightarrow> None)
           else None)
      | _ \<Rightarrow> None)"

text \<open>\<^verbatim>\<open>v, ok := info[name].(string)\<close>\<close>

definition stringField :: "ymap \<Rightarrow> string \<Rightarrow> string option" where
  "stringField info name = (case map_of info name of Some (YString v) \<Rightarrow> Some v | _ \<Rightarrow> None)"

definition setClusterFields :: "ymap \<Rightarrow> ClusterResourceModel \<Rightarrow> ClusterResourceModel" where
  "setClusterFields kubeconfigData data =
     (case firstEntryInfo kubeconfigData ''clusters'' ''cluster'' of
        None \<Rightarrow> data
      | Some clusterInfo \<Rightarrow>
          (let d1 = (case stringField clusterInfo ''server'' of
                       Some server \<Rightarrow> data\<lparr>Model_Endpoint := Known server\<rparr>
                     | None \<Rightarrow> data)
           in case stringField clusterInfo ''certificate-authority-data'' of
                Some caData \<Rightarrow> d1\<lparr>Model_ClusterCaCertificate := Known caData\<rparr>
              | None \<Rightarrow> d1))"

definition setUserFields :: "ymap \<Rightarrow> ClusterResourceModel \<Rightarrow> ClusterResourceModel" where
  "setUserFields kubeconfigData data =
     (case firstEntryInfo kubeconfigData ''users'' ''user'' of
        None \<Rightarrow> data
      | Some userInfo \<Rightarrow>
          (let d1 = (case stringField userInfo ''client-certificate-data'' of
                       Some certData \<Rightarrow> data\<lparr>Model_ClientCertificate := Known certData\<rparr>
                     | None \<Rightarrow> data)
           in case stringField userInfo ''client-key-data'' of
                Some keyData \<Rightarrow> d1\<lparr>Model_ClientKey := Known keyData\<rparr>
              | None \<Rightarrow> d1))"

text \<open>The four closing \<^verbatim>\<open>if data.X.IsNull() { data.X = types.StringValue("") }\<close>.\<close>

definition setNullsToEmpty :: "ClusterResourceModel \<Rightarrow> ClusterResourceModel" where
  "setNullsToEmpty data =
     (let d1 = (if IsNull (Model_Endpoint data) then data\<lparr>Model_Endpoint := Known []\<rparr> else data);
          d2 = (if IsNull (Model_ClusterCaCertificate d1)
                then d1\<lparr>Model_ClusterCaCertificate := Known []\<rparr> else d1);
          d3 = (if IsNull (Model_ClientCertificate d2)
                then d2\<lparr>Model_ClientCertificate := Known []\<rparr> else d2)
      in if IsNull (Model_ClientKey d3) then d3\<lparr>Model_ClientKey := Known []\<rparr> else d3)"

definition populateComputedValues ::
  "'b Env \<Rightarrow> OS \<Rightarrow> 'b \<Rightarrow> ClusterResourceModel \<Rightarrow> Diagnostic list
     \<Rightarrow> ClusterResourceModel \<times> Diagnostic list" where
  "populateComputedValues env os b data diagnostics =
     (let clusterName = ValueString (Model_Name data);
          d1 = data\<lparr>Model_ID := Known clusterName\<rparr>
      in case provider_KubeConfig (env_provider env) clusterName False b of
           Inl err \<Rightarrow>
             (d1, AddError diagnostics ''Failed to get kubeconfig'' (Error (env_fmtDuration env) err))
         | Inr kubeconfig \<Rightarrow>
             (let d2 = d1\<lparr>Model_Kubeconfig := Known kubeconfig\<rparr>
              in case os_UserHomeDir os of
                   Inl err \<Rightarrow>
                     (d2, AddError diagnostics ''Failed to get home directory''
                            (Error (env_fmtDuration env) err))
                 | Inr homeDir \<Rightarrow>
                     (let kubeconfigPath =
                            filepath_Join [homeDir, ''.kube'', ''kind'', ''kind-'' @ clusterName];
                          d3 = d2\<lparr>Model_KubeconfigPath := Known kubeconfigPath\<rparr>
                      in case env_yaml_Unmarshal env kubeconfig of
                           Inl err \<Rightarrow>
                             (d3, AddError diagnostics ''Failed to parse kubeconfig''
                                    (Error (env_fmtDuration env) err))
                         | Inr kubeconfigData \<Rightarrow>
                             (setNullsToEmpty
                                (setUserFields kubeconfigData
                                   (setClusterFields kubeconfigData d3)),
                              diagnostics))))"

section \<open>The lifecycle controller: Create\<close>

text \<open>
  The request carries the plan and the diagnostics of decoding it (\<^verbatim>\<open>req.Plan.Get\<close>); the
  response starts with no diagnostics and no state. \<^verbatim>\<open>resp.State.Set\<close> stores the model.
\<close>

record CreateRequest =
  Req_Plan :: ClusterResourceModel
  Req_PlanGetDiags :: "Diagnostic list"

record CreateResponse =
  Resp_Diagnostics :: "Diagnostic list"
  Resp_State :: "ClusterResourceModel option"

text \<open>\<^verbatim>\<open>time.Duration(n) * time.Second\<close>: a 64-bit product, read as a signed number.\<close>

definition secondsDuration :: "64 word \<Rightarrow> int" where
  "secondsDuration n = sint (n * (word_of_int Second :: 64 word))"

definition createOpts :: "ClusterResourceModel \<Rightarrow> Cluster \<Rightarrow> CreateOption list" where
  "createOpts data cfg =
     [CreateWithV1Alpha4Config cfg,
      CreateWithWaitForReady (secondsDuration (ValueInt64 (Model_WaitForReady data))),
      CreateWithDisplayUsage False,
      CreateWithDisplaySalutation False]
     @ (if \<not> IsNull (Model_NodeImage data) \<and> ValueString (Model_NodeImage data) \<noteq> []
        then [CreateWithNodeImage (ValueString (Model_NodeImage data))]
        else [])"

text \<open>The operation returns its response, the operating system and the backend state.\<close>

definition Create :: "'b Env \<Rightarrow> OS \<Rightarrow> 'b \<Rightarrow> CreateRequest \<Rightarrow> CreateResponse \<times> OS \<times> 'b" where
  "Create env os0 b0 req =
     (let os = cleanupStaleLockFile os0;
          data = Req_Plan req;
          diags0 = Req_PlanGetDiags req
      in if HasError diags0
         then (\<lparr>Resp_Diagnostics = diags0, Resp_State = None\<rparr>, os, b0)
         else
           (let clusterName = ValueString (Model_Name data);
                cfg = buildClusterConfig data
            in case provider_Create (env_provider env) clusterName (createOpts data cfg) b0 of
                 (Some err, b1) \<Rightarrow>
                   (\<lparr>Resp_Diagnostics =
                        AddError diags0 ''Failed to create cluster'' (Error (env_fmtDuration env) err),
                      Resp_State = None\<rparr>, os, b1)
               | (None, b1) \<Rightarrow>
                   (case populateComputedValues env os b1 data diags0 of
                      (data', diags1) \<Rightarrow>
                        if HasError diags1
                        then (\<lparr>Resp_Diagnostics = diags1, Resp_State = None\<rparr>, os, b1)
                        else if \<not> IsNull (Model_WaitForNodesReady data')
                                \<and> ValueBool (Model_WaitForNodesReady data')
                        then (let timeout = secondsDuration (ValueInt64 (Model_WaitForReady data'))
                              in case waitForAllNodesReady (env_wait env)
                                        (ValueString (Model_Kubeconfig data')) timeout of
                                   Some err \<Rightarrow>
                                     (\<lparr>Resp_Diagnostics =
                                          AddError diags1 ''Failed waiting for nodes to be ready''
                                            (Error (env_fmtDuration env) err),
                                        Resp_State = None\<rparr>, os, b1)
                                 | None \<Rightarrow>
                                     (\<lparr>Resp_Diagnostics = diags1, Resp_State = Some data'\<rparr>, os, b1))
                        else (\<lparr>Resp_Diagnostics = diags1, Resp_State = Some data'\<rparr>, os, b1))))"

section \<open>Example inputs\<close>

definition exampleModel :: ClusterResourceModel where
  "exampleModel = \<lparr>Model_ID = Unknown, Model_Name = Known ''dev'', Model_NodeImage = Known [],
     Model_WaitForReady = Known 300, Model_WaitForNodesReady = Known True,
     Model_Networking = None, Model_FeatureGates = Null, Model_RuntimeConfig = Null,
     Model_KubeadmConfigPatches = Null, Model_KubeadmConfigPatchesJSON6902 = [],
     Model_ContainerdConfigPatches = Null, Model_ContainerdConfigPatchesJSON6902 = Null,
     Model_Kubeconfig = Unknown, Model_KubeconfigPath = Unknown,
     Model_ClientCertificate = Unknown, Model_ClientKey = Unknown,
     Model_ClusterCaCertificate = Unknown, Model_Endpoint = Unknown, Model_Nodes = []\<rparr>"

definition exampleNode :: "string \<Rightarrow> NodeModel" where
  "exampleNode role = \<lparr>NodeModel_Role = Known role, NodeModel_Image = Null,
     NodeModel_Labels = Null, NodeModel_ExtraMounts = [], NodeModel_ExtraPortMappings = [],
     NodeModel_KubeadmConfigPatches = Null, NodeModel_KubeadmConfigPatchesJSON6902 = []\<rparr>"

definition threeNodeModel :: ClusterResourceModel where
  "threeNodeModel = exampleModel\<lparr>Model_Nodes :=
     [exampleNode ''control-plane'', exampleNode ''worker'', exampleNode ''worker'']\<rparr>"

definition nullPatchModel :: ClusterResourceModel where
  "nullPatchModel = exampleModel\<lparr>Model_KubeadmConfigPatches :=
     Known [StringV (Known ''a: 1''), StringV Null, StringV (Known ''b: 2'')]\<rparr>"

definition exampleMount :: "string tfval \<Rightarrow> MountModel" where
  "exampleMount propagation = \<lparr>MountModel_HostPath = Known ''/data'',
     MountModel_ContainerPath = Known ''/mnt'', MountModel_ReadOnly = Null,
     MountModel_SelinuxRelabel = Null, MountModel_Propagation = propagation\<rparr>"

definition examplePort :: "string tfval \<Rightarrow> PortMappingModel" where
  "examplePort protocol = \<lparr>PortModel_ContainerPort = Known 80, PortModel_HostPort = Known 8080,
     PortModel_ListenAddress = Null, PortModel_Protocol = protocol\<rparr>"

definition exampleNetworking :: "string \<Rightarrow> string \<Rightarrow> NetworkingModel" where
  "exampleNetworking family mode = \<lparr>NetModel_IPFamily = Known family,
     NetModel_APIServerPort = Null, NetModel_APIServerAddress = Null, NetModel_PodSubnet = Null,
     NetModel_ServiceSubnet = Null, NetModel_DisableDefaultCNI = Null,
     NetModel_KubeProxyMode = Known mode, NetModel_DNSSearch = Null\<rparr>"

definition exampleOS :: "int \<Rightarrow> OS" where
  "exampleOS mtime = \<lparr>os_UserHomeDir = Inr ''/home/u'', os_Now = 100 * Second,
     os_Files = [''/home/u/.kube/config.lock'' \<mapsto> \<lparr>ModTime = mtime\<rparr>],
     os_StatRefused = (\<lambda>name. False), os_RemoveRefused = (\<lambda>name. False)\<rparr>"

definition readyNode :: "string \<Rightarrow> K8sNode" where
  "readyNode name = \<lparr>K8s_Name = name, K8s_Conditions =
     [\<lparr>Cond_Type = ''MemoryPressure'', Cond_Status = ''False''\<rparr>,
      \<lparr>Cond_Type = ''Ready'', Cond_Status = ''True''\<rparr>]\<rparr>"

definition pendingNode :: "string \<Rightarrow> K8sNode" where
  "pendingNode name = \<lparr>K8s_Name = name, K8s_Conditions =
     [\<lparr>Cond_Type = ''Ready'', Cond_Status = ''False''\<rparr>]\<rparr>"

definition exampleWait :: "int option \<Rightarrow> (nat \<Rightarrow> error + K8sNode list) \<Rightarrow> WaitEnv" where
  "exampleWait cancelAt status = \<lparr>wait_CreateTemp = Inr ''/tmp/kubeconfig-1.yaml'',
     wait_WriteString = (\<lambda>content. None), wait_Close = None,
     wait_BuildConfig = (\<lambda>content. if content = [] then Some (External ''invalid configuration'') else None),
     wait_NewForConfig = None, wait_CancelAt = cancelAt, wait_CtxErr = Canceled,
     wait_List = status, wait_Prefer = (\<lambda>k. CaseTick)\<rparr>"

definition emptyThenReady :: "nat \<Rightarrow> error + K8sNode list" where
  "emptyThenReady k = (if k = 0 then Inr [] else Inr [readyNode ''cp'', readyNode ''w1''])"

definition alwaysReady :: "nat \<Rightarrow> error + K8sNode list" where
  "alwaysReady k = Inr [readyNode ''cp'']"

definition neverReady :: "nat \<Rightarrow> error + K8sNode list" where
  "neverReady k = Inr [readyNode ''cp'', pendingNode ''w1'']"

definition listProvider :: "string list Provider" where
  "listProvider = \<lparr>
     provider_Create = (\<lambda>name opts clusters. (None, name # clusters)),
     provider_Delete = (\<lambda>name kubeconfigPath clusters. (None, removeAll name clusters)),
     provider_List = (\<lambda>clusters. Inr clusters),
     provider_KubeConfig = (\<lambda>name internal clusters.
        if name \<in> set clusters then Inr (''kubeconfig of '' @ name)
        else Inl (External (''could not locate any control plane nodes for cluster '' @ name)))\<rparr>"

definition failingProvider :: "string \<Rightarrow> string list Provider" where
  "failingProvider msg = listProvider\<lparr>
     provider_Create := (\<lambda>name opts clusters. (Some (External msg), clusters))\<rparr>"

definition tokenBundle :: ymap where
  "tokenBundle =
     [(''apiVersion'', YString ''v1''),
      (''kind'', YString ''Config''),
      (''clusters'', YSeq [YMap [(''name'', YString ''kind-dev''),
         (''cluster'', YMap [(''server'', YString ''https://127.0.0.1:6443''),
                             (''certificate-authority-data'', YString ''Q0E='')])]])]"

definition exampleUnmarshal :: "string \<Rightarrow> error + ymap" where
  "exampleUnmarshal text =
     (if text = ''kubeconfig of dev'' then Inr tokenBundle
      else Inl (External ''error converting YAML to JSON''))"

definition exampleEnv :: "string list Provider \<Rightarrow> WaitEnv \<Rightarrow> string list Env" where
  "exampleEnv provider wait = \<lparr>env_provider = provider, env_yaml_Unmarshal = exampleUnmarshal,
     env_fmtDuration = (\<lambda>d. ''7s''), env_wait = wait\<rparr>"

definition exampleRequest :: CreateRequest where
  "exampleRequest = \<lparr>Req_Plan = exampleModel\<lparr>Model_WaitForReady := Known 7\<rparr>,
     Req_PlanGetDiags = []\<rparr>"

section \<open>Properties of the synthesizer\<close>

text \<open>The index-assigning loop computes a map; the appending loop keeps the non-null strings.\<close>

lemma assignEach_take:
  "length out = i + length xs \<Longrightarrow> assignEach f i xs out = take i out @ map f xs"
proof (induction xs arbitrary: i out)
  case Nil
  then show ?case by simp
next
  case (Cons x xs)
  have "assignEach f (Suc i) xs (out[i := f x]) = take (Suc i) (out[i := f x]) @ map f xs"
    using Cons.prems by (intro Cons.IH) simp
  moreover have "take (Suc i) (out[i := f x]) = take i out @ [f x]"
    using Cons.prems by (simp add: take_Suc_conv_app_nth)
  ultimately show ?case by simp
qed

lemma makeAndAssign_map: "makeAndAssign zero f xs = map f xs"
  unfolding makeAndAssign_def by (simp add: assignEach_take)

lemma appendStrings_acc:
  "appendStrings (map StringV svs) patches
     = patches @ map ValueString (filter (\<lambda>sv. \<not> IsNull sv) svs)"
  by (induction svs arbitrary: patches) simp_all

text \<open>Projections of the synthesized structures, field by field.\<close>

lemma Cluster_Nodes_build:
  "Cluster_Nodes (buildClusterConfig data) =
     (if length (Model_Nodes data) > 0 then map buildNodeConfig (Model_Nodes data)
      else [zeroNode\<lparr>Node_Role := ControlPlaneRole\<rparr>, zeroNode\<lparr>Node_Role := WorkerRole\<rparr>])"
  by (simp add: buildClusterConfig_def Let_def makeAndAssign_map split: option.splits)

lemma Cluster_Patches_build:
  "Cluster_KubeadmConfigPatches (buildClusterConfig data) =
     (if \<not> IsNull (Model_KubeadmConfigPatches data)
           \<and> length (ListElements (Model_KubeadmConfigPatches data)) > 0
      then appendStrings (ListElements (Model_KubeadmConfigPatches data)) [] else [])"
  by (simp add: buildClusterConfig_def Let_def split: option.splits)

lemma Node_Patches_build:
  "Node_KubeadmConfigPatches (buildNodeConfig node) =
     (if \<not> IsNull (NodeModel_KubeadmConfigPatches node)
           \<and> length (ListElements (NodeModel_KubeadmConfigPatches node)) > 0
      then appendStrings (ListElements (NodeModel_KubeadmConfigPatches node)) [] else [])"
  by (simp add: buildNodeConfig_def Let_def zeroNode_def)

lemma Node_Role_build:
  "Node_Role (buildNodeConfig node) =
     (if \<not> IsNull (NodeModel_Role node) \<and> ValueString (NodeModel_Role node) = ''control-plane''
      then ControlPlaneRole
      else if \<not> IsNull (NodeModel_Role node) \<and> ValueString (NodeModel_Role node) = ''worker''
      then WorkerRole else [])"
  by (simp add: buildNodeConfig_def Let_def zeroNode_def)

lemma Node_Mounts_build:
  "Node_ExtraMounts (buildNodeConfig node) = map buildMount (NodeModel_ExtraMounts node)"
  by (simp add: buildNodeConfig_def Let_def zeroNode_def makeAndAssign_map)

lemma Node_Ports_build:
  "Node_ExtraPortMappings (buildNodeConfig node)
     = map buildPortMapping (NodeModel_ExtraPortMappings node)"
  by (simp add: buildNodeConfig_def Let_def zeroNode_def makeAndAssign_map)

lemma Net_IPFamily_build:
  "Net_IPFamily (buildNetworkingConfig net) =
     (if \<not> IsNull (NetModel_IPFamily net) \<and> ValueString (NetModel_IPFamily net) \<noteq> []
      then ValueString (NetModel_IPFamily net) else [])"
  by (simp add: buildNetworkingConfig_def Let_def zeroNetworking_def)

lemma Net_KubeProxyMode_build:
  "Net_KubeProxyMode (buildNetworkingConfig net) =
     (if \<not> IsNull (NetModel_KubeProxyMode net) \<and> ValueString (NetModel_KubeProxyMode net) \<noteq> []
      then ValueString (NetModel_KubeProxyMode net) else [])"
  by (simp add: buildNetworkingConfig_def Let_def zeroNetworking_def)

text \<open>
  Claim C1. If the model has no node block, the synthesized node list is the control-plane
  node followed by the worker node, two in all; otherwise it has as many nodes as the
  model has blocks, and the node at each position is built from the block at that position.
\<close>

theorem node_topology:
  "(length (Model_Nodes data) = 0 \<longrightarrow>
      Cluster_Nodes (buildClusterConfig data)
        = [zeroNode\<lparr>Node_Role := ControlPlaneRole\<rparr>, zeroNode\<lparr>Node_Role := WorkerRole\<rparr>]
      \<and> length (Cluster_Nodes (buildClusterConfig data)) = 2
      \<and> map Node_Role (Cluster_Nodes (buildClusterConfig data)) = [''control-plane'', ''worker''])
   \<and> (length (Model_Nodes data) > 0 \<longrightarrow>
      length (Cluster_Nodes (buildClusterConfig data)) = length (Model_Nodes data)
      \<and> (\<forall>i < length (Model_Nodes data).
            Cluster_Nodes (buildClusterConfig data) ! i = buildNodeConfig (Model_Nodes data ! i)))"
  by (simp add: Cluster_Nodes_build ControlPlaneRole_def WorkerRole_def zeroNode_def)

text \<open>C1 at a model without node blocks and at a model with three.\<close>

theorem node_topology_witness:
  "map Node_Role (Cluster_Nodes (buildClusterConfig exampleModel)) = [''control-plane'', ''worker'']
   \<and> length (Cluster_Nodes (buildClusterConfig threeNodeModel)) = 3
   \<and> Cluster_Nodes (buildClusterConfig threeNodeModel) ! 2 = buildNodeConfig (exampleNode ''worker'')"
proof -
  have none: "length (Model_Nodes exampleModel) = 0"
    by (simp add: exampleModel_def)
  have three: "length (Model_Nodes threeNodeModel) = 3"
    and last: "Model_Nodes threeNodeModel ! 2 = exampleNode ''worker''"
    by (simp_all add: threeNodeModel_def)
  have "map Node_Role (Cluster_Nodes (buildClusterConfig exampleModel))
          = [''control-plane'', ''worker'']"
    using node_topology [of exampleModel] none by blast
  moreover have "length (Cluster_Nodes (buildClusterConfig threeNodeModel)) = 3"
    using node_topology [of threeNodeModel] three by simp
  moreover have "Cluster_Nodes (buildClusterConfig threeNodeModel) ! 2
                   = buildNodeConfig (Model_Nodes threeNodeModel ! 2)"
    using node_topology [of threeNodeModel] three by simp
  ultimately show ?thesis using last by simp
qed

text \<open>
  Claim C7. For each enumeration, the synthesized field equals a known constant exactly when
  the model's string is that constant, character for character: the role, the IP family,
  the kube-proxy mode, the propagation of every mount and the protocol of every port
  mapping. A role that is none of the known ones leaves the role at its zero value, the
  empty string, and the synthesis still returns a node. (Fields other than the role take an
  unrecognized string over as it is.)
\<close>

theorem enum_exact_match:
  "(r \<in> set knownRoles \<longrightarrow>
      (Node_Role (buildNodeConfig node) = r \<longleftrightarrow> NodeModel_Role node = Known r))
   \<and> (ValueString (NodeModel_Role node) \<notin> set knownRoles \<longrightarrow>
        Node_Role (buildNodeConfig node) = [])
   \<and> (fam \<in> set knownIPFamilies \<longrightarrow>
        (Net_IPFamily (buildNetworkingConfig net) = fam \<longleftrightarrow> NetModel_IPFamily net = Known fam))
   \<and> (mode \<in> set knownProxyModes \<longrightarrow>
        (Net_KubeProxyMode (buildNetworkingConfig net) = mode
           \<longleftrightarrow> NetModel_KubeProxyMode net = Known mode))
   \<and> (prop \<in> set knownPropagations \<longrightarrow> i < length (NodeModel_ExtraMounts node) \<longrightarrow>
        (Mount_Propagation (Node_ExtraMounts (buildNodeConfig node) ! i) = prop
           \<longleftrightarrow> MountModel_Propagation (NodeModel_ExtraMounts node ! i) = Known prop))
   \<and> (proto \<in> set knownProtocols \<longrightarrow> j < length (NodeModel_ExtraPortMappings node) \<longrightarrow>
        (Port_Protocol (Node_ExtraPortMappings (buildNodeConfig node) ! j) = proto
           \<longleftrightarrow> PortModel_Protocol (NodeModel_ExtraPortMappings node ! j) = Known proto))"
proof -
  have role_eq: "Node_Role (buildNodeConfig node) = r \<longleftrightarrow> NodeModel_Role node = Known r"
    if "r \<in> set knownRoles"
    using that
    by (cases "NodeModel_Role node")
      (auto simp: Node_Role_build knownRoles_def ControlPlaneRole_def WorkerRole_def
        IsNull_def ValueString_def)
  have unrec_eq: "Node_Role (buildNodeConfig node) = []"
    if "ValueString (NodeModel_Role node) \<notin> set knownRoles"
    using that
    by (auto simp: Node_Role_build knownRoles_def ControlPlaneRole_def WorkerRole_def)
  have fam_eq: "Net_IPFamily (buildNetworkingConfig net) = fam \<longleftrightarrow> NetModel_IPFamily net = Known fam"
    if "fam \<in> set knownIPFamilies"
    using that
    by (cases "NetModel_IPFamily net")
      (auto simp: Net_IPFamily_build knownIPFamilies_def IsNull_def ValueString_def)
  have mode_eq: "Net_KubeProxyMode (buildNetworkingConfig net) = mode
                \<longleftrightarrow> NetModel_KubeProxyMode net = Known mode"
    if "mode \<in> set knownProxyModes"
    using that
    by (cases "NetModel_KubeProxyMode net")
      (auto simp: Net_KubeProxyMode_build knownProxyModes_def IsNull_def ValueString_def)
  have prop_eq: "Mount_Propagation (buildMount m) = prop \<longleftrightarrow> MountModel_Propagation m = Known prop"
    if "prop \<in> set knownPropagations" for m
    using that
    by (cases "MountModel_Propagation m")
      (auto simp: buildMount_def Let_def knownPropagations_def IsNull_def ValueString_def)
  have proto_eq: "Port_Protocol (buildPortMapping pm) = proto \<longleftrightarrow> PortModel_Protocol pm = Known proto"
    if "proto \<in> set knownProtocols" for pm
    using that
    by (cases "PortModel_Protocol pm")
      (auto simp: buildPortMapping_def Let_def knownProtocols_def IsNull_def ValueString_def)
  show ?thesis
    using role_eq unrec_eq fam_eq mode_eq prop_eq proto_eq
    by (simp add: Node_Mounts_build Node_Ports_build)
qed

text \<open>C7 at known constants, and at the role \<open>Worker\<close>, which no constant matches.\<close>

theorem enum_exact_match_witness:
  "Node_Role (buildNodeConfig (exampleNode ''worker'')) = ''worker''
   \<and> Node_Role (buildNodeConfig (exampleNode ''Worker'')) = []
   \<and> Net_IPFamily (buildNetworkingConfig (exampleNetworking ''ipv6'' ''ipvs'')) = ''ipv6''
   \<and> Net_KubeProxyMode (buildNetworkingConfig (exampleNetworking ''ipv6'' ''ipvs'')) = ''ipvs''
   \<and> Mount_Propagation (Node_ExtraMounts (buildNodeConfig
        ((exampleNode ''worker'')\<lparr>NodeModel_ExtraMounts := [exampleMount (Known ''Bidirectional'')],
           NodeModel_ExtraPortMappings := [examplePort (Known ''UDP'')]\<rparr>)) ! 0) = ''Bidirectional''
   \<and> Port_Protocol (Node_ExtraPortMappings (buildNodeConfig
        ((exampleNode ''worker'')\<lparr>NodeModel_ExtraMounts := [exampleMount (Known ''Bidirectional'')],
           NodeModel_ExtraPortMappings := [examplePort (Known ''UDP'')]\<rparr>)) ! 0) = ''UDP''"
  using
    enum_exact_match [of "''worker''" "exampleNode ''worker''" "''ipv6''"
      "exampleNetworking ''ipv6'' ''ipvs''" "''ipvs''" "''None''" 0 "''TCP''" 0]
    enum_exact_match [of "''worker''" "exampleNode ''Worker''" "''ipv6''"
      "exampleNetworking ''ipv6'' ''ipvs''" "''ipvs''" "''None''" 0 "''TCP''" 0]
    enum_exact_match [of "''worker''"
      "(exampleNode ''worker'')\<lparr>NodeModel_ExtraMounts := [exampleMount (Known ''Bidirectional'')],
           NodeModel_ExtraPortMappings := [examplePort (Known ''UDP'')]\<rparr>" "''ipv6''"
      "exampleNetworking ''ipv6'' ''ipvs''" "''ipvs''" "''Bidirectional''" 0 "''UDP''" 0]
  by (simp add: exampleNode_def exampleNetworking_def exampleMount_def examplePort_def
      knownRoles_def knownIPFamilies_def knownProxyModes_def knownPropagations_def
      knownProtocols_def ControlPlaneRole_def WorkerRole_def ValueString_def)

text \<open>
  Claim C8 as stated fails: a null element of the list is skipped, so a list of three
  elements with a null in the middle gives two patches.
\<close>

theorem merge_patches_counterexample:
  "length (Cluster_KubeadmConfigPatches (buildClusterConfig nullPatchModel))
     \<noteq> length (ListElements (Model_KubeadmConfigPatches nullPatchModel))"
  by (simp add: Cluster_Patches_build nullPatchModel_def exampleModel_def ListElements_def
      IsNull_def ValueString_def)

text \<open>
  Claim C8, amended. The synthesized merge patches, of the cluster and of a node, are the
  values of the non-null elements of the model's list, in the order of the list; when the
  list holds \<open>N\<close> strings and none is null, they are those \<open>N\<close> strings in the same order.
\<close>

theorem merge_patches_order:
  "(Model_KubeadmConfigPatches data = Known (map StringV svs) \<longrightarrow>
      Cluster_KubeadmConfigPatches (buildClusterConfig data)
        = map ValueString (filter (\<lambda>sv. \<not> IsNull sv) svs))
   \<and> (NodeModel_KubeadmConfigPatches node = Known (map StringV svs) \<longrightarrow>
      Node_KubeadmConfigPatches (buildNodeConfig node)
        = map ValueString (filter (\<lambda>sv. \<not> IsNull sv) svs))
   \<and> (Model_KubeadmConfigPatches data = Known (map (\<lambda>p. StringV (Known p)) ps) \<longrightarrow>
      Cluster_KubeadmConfigPatches (buildClusterConfig data) = ps)
   \<and> (NodeModel_KubeadmConfigPatches node = Known (map (\<lambda>p. StringV (Known p)) ps) \<longrightarrow>
      Node_KubeadmConfigPatches (buildNodeConfig node) = ps)"
proof -
  have known: "map (\<lambda>p. StringV (Known p)) ps = map StringV (map Known ps)"
    by simp
  have keep: "map ValueString (filter (\<lambda>sv. \<not> IsNull sv) (map Known ps)) = ps"
    by (induction ps) (simp_all add: IsNull_def ValueString_def)
  have unwrap: "map ValueString (map Known ps) = ps"
    by (induction ps) (simp_all add: ValueString_def)
  have general: "appendStrings (map StringV svs) [] = map ValueString (filter (\<lambda>sv. \<not> IsNull sv) svs)"
    for svs
    by (simp add: appendStrings_acc)
  show ?thesis
    by (auto simp: Cluster_Patches_build Node_Patches_build ListElements_def IsNull_def
        general known keep unwrap simp del: map_map)
qed

text \<open>C8 amended at a list with a null element and at a list without.\<close>

theorem merge_patches_order_witness:
  "Cluster_KubeadmConfigPatches (buildClusterConfig nullPatchModel) = [''a: 1'', ''b: 2'']
   \<and> Node_KubeadmConfigPatches (buildNodeConfig
        ((exampleNode ''worker'')\<lparr>NodeModel_KubeadmConfigPatches :=
           Known [StringV (Known ''x''), StringV (Known ''y'')]\<rparr>)) = [''x'', ''y'']"
  using
    merge_patches_order [of nullPatchModel "[Known ''a: 1'', Null, Known ''b: 2'']"
      "(exampleNode ''worker'')\<lparr>NodeModel_KubeadmConfigPatches :=
           Known [StringV (Known ''x''), StringV (Known ''y'')]\<rparr>" "[''x'', ''y'']"]
  by (simp add: nullPatchModel_def exampleModel_def exampleNode_def IsNull_def ValueString_def)

section \<open>Properties of lock recovery\<close>

text \<open>Saturation of the subtraction does not move an age across the 60 second mark.\<close>

lemma time_Sub_stale: "time_Sub t u > 60 * Second \<longleftrightarrow> t - u > 60 * Second"
  by (simp add: time_Sub_def Let_def maxDuration_def minDuration_def Second_def)

text \<open>
  Claim C9. A lock file whose age is 60 seconds or less is left alone (nothing changes). A
  lock file that \<^verbatim>\<open>os.Stat\<close> finds and that is older than 60 seconds is handed to
  \<^verbatim>\<open>os.Remove\<close>, after which it is gone unless the system refuses the removal. A missing
  home directory, a failing \<^verbatim>\<open>os.Stat\<close> and a refused removal change nothing and are not
  reported: the function returns no error.
\<close>

theorem stale_lock_recovery:
  "(os_UserHomeDir os = Inr homeDir \<longrightarrow>
      os_Files os (filepath_Join [homeDir, ''.kube'', ''config.lock'']) = Some info \<longrightarrow>
      os_Now os - ModTime info \<le> 60 * Second \<longrightarrow>
      cleanupStaleLockFile os = os)
   \<and> (os_UserHomeDir os = Inr homeDir \<longrightarrow>
      os_Stat os (filepath_Join [homeDir, ''.kube'', ''config.lock'']) = Inr info \<longrightarrow>
      os_Now os - ModTime info > 60 * Second \<longrightarrow>
      cleanupStaleLockFile os = snd (os_Remove os (filepath_Join [homeDir, ''.kube'', ''config.lock'']))
      \<and> (\<not> os_RemoveRefused os (filepath_Join [homeDir, ''.kube'', ''config.lock'']) \<longrightarrow>
           os_Files (cleanupStaleLockFile os) (filepath_Join [homeDir, ''.kube'', ''config.lock''])
             = None))
   \<and> (os_UserHomeDir os = Inl err \<longrightarrow> cleanupStaleLockFile os = os)
   \<and> (os_UserHomeDir os = Inr homeDir \<longrightarrow>
      os_Stat os (filepath_Join [homeDir, ''.kube'', ''config.lock'']) = Inl err \<longrightarrow>
      cleanupStaleLockFile os = os)
   \<and> (os_UserHomeDir os = Inr homeDir \<longrightarrow>
      os_RemoveRefused os (filepath_Join [homeDir, ''.kube'', ''config.lock'']) \<longrightarrow>
      cleanupStaleLockFile os = os)"
proof -
  let ?lock = "filepath_Join [homeDir, ''.kube'', ''config.lock'']"
  have young: "cleanupStaleLockFile os = os"
    if "os_UserHomeDir os = Inr homeDir" "os_Files os ?lock = Some info"
      "os_Now os - ModTime info \<le> 60 * Second"
  proof (cases "os_Stat os ?lock")
    case (Inl e)
    then show ?thesis using that by (simp add: cleanupStaleLockFile_def)
  next
    case (Inr i)
    then have "i = info"
      using that by (simp add: os_Stat_def split: if_splits)
    then show ?thesis
      using that Inr
      by (simp add: cleanupStaleLockFile_def time_Since_def time_Sub_stale del: filepath_Join.simps)
  qed
  have stale: "cleanupStaleLockFile os = snd (os_Remove os ?lock)"
    if "os_UserHomeDir os = Inr homeDir" "os_Stat os ?lock = Inr info"
      "os_Now os - ModTime info > 60 * Second"
    using that
    by (simp add: cleanupStaleLockFile_def time_Since_def time_Sub_stale del: filepath_Join.simps)
  have gone: "os_Files (snd (os_Remove os ?lock)) ?lock = None"
    if "\<not> os_RemoveRefused os ?lock"
    using that by (simp add: os_Remove_def split: option.splits del: filepath_Join.simps)
  have nohome: "cleanupStaleLockFile os = os" if "os_UserHomeDir os = Inl err"
    using that by (simp add: cleanupStaleLockFile_def)
  have nostat: "cleanupStaleLockFile os = os"
    if "os_UserHomeDir os = Inr homeDir" "os_Stat os ?lock = Inl err"
    using that by (simp add: cleanupStaleLockFile_def del: filepath_Join.simps)
  have refused: "cleanupStaleLockFile os = os"
    if "os_UserHomeDir os = Inr homeDir" "os_RemoveRefused os ?lock"
    using that
    by (simp add: cleanupStaleLockFile_def os_Remove_def Let_def
        split: sum.splits del: filepath_Join.simps)
  show ?thesis
    using young stale gone nohome nostat refused by metis
qed

text \<open>C9 at ages of 60 and 61 seconds, and without a home directory.\<close>

theorem stale_lock_recovery_witness:
  "cleanupStaleLockFile (exampleOS (40 * Second)) = exampleOS (40 * Second)
   \<and> os_Files (cleanupStaleLockFile (exampleOS (39 * Second))) ''/home/u/.kube/config.lock'' = None
   \<and> cleanupStaleLockFile ((exampleOS 0)\<lparr>os_UserHomeDir := Inl (External ''$HOME is not defined'')\<rparr>)
       = (exampleOS 0)\<lparr>os_UserHomeDir := Inl (External ''$HOME is not defined'')\<rparr>"
proof -
  have p: "filepath_Join [''/home/u'', ''.kube'', ''config.lock''] = ''/home/u/.kube/config.lock''"
    by simp
  have home: "os_UserHomeDir (exampleOS t) = Inr ''/home/u''" for t
    by (simp add: exampleOS_def)
  have present: "os_Files (exampleOS t) ''/home/u/.kube/config.lock'' = Some \<lparr>ModTime = t\<rparr>" for t
    by (simp add: exampleOS_def)
  have stat: "os_Stat (exampleOS t) ''/home/u/.kube/config.lock'' = Inr \<lparr>ModTime = t\<rparr>" for t
    by (simp add: exampleOS_def os_Stat_def)
  have allowed: "\<not> os_RemoveRefused (exampleOS t) ''/home/u/.kube/config.lock''" for t
    by (simp add: exampleOS_def)
  have young: "os_Now (exampleOS (40 * Second)) - ModTime \<lparr>ModTime = 40 * Second\<rparr> \<le> 60 * Second"
    by (simp add: exampleOS_def Second_def)
  have old: "os_Now (exampleOS (39 * Second)) - ModTime \<lparr>ModTime = 39 * Second\<rparr> > 60 * Second"
    by (simp add: exampleOS_def Second_def)
  have nohome: "os_UserHomeDir ((exampleOS 0)\<lparr>os_UserHomeDir := Inl (External ''$HOME is not defined'')\<rparr>)
                  = Inl (External ''$HOME is not defined'')"
    by simp
  have a: "cleanupStaleLockFile (exampleOS (40 * Second)) = exampleOS (40 * Second)"
    using stale_lock_recovery [of "exampleOS (40 * Second)" "''/home/u''" "\<lparr>ModTime = 40 * Second\<rparr>",
        unfolded p] home present young
    by blast
  have b: "os_Files (cleanupStaleLockFile (exampleOS (39 * Second))) ''/home/u/.kube/config.lock''
             = None"
    using stale_lock_recovery [of "exampleOS (39 * Second)" "''/home/u''" "\<lparr>ModTime = 39 * Second\<rparr>",
        unfolded p] home stat old allowed
    by blast
  have c: "cleanupStaleLockFile ((exampleOS 0)\<lparr>os_UserHomeDir := Inl (External ''$HOME is not defined'')\<rparr>)
       = (exampleOS 0)\<lparr>os_UserHomeDir := Inl (External ''$HOME is not defined'')\<rparr>"
    using stale_lock_recovery [of "(exampleOS 0)\<lparr>os_UserHomeDir := Inl (External ''$HOME is not defined'')\<rparr>"
        "''/home/u''" _ "External ''$HOME is not defined''"] nohome
    by blast
  show ?thesis using a b c by blast
qed

section \<open>Properties of the readiness gate\<close>

text \<open>What the two scanning loops compute.\<close>

lemma conditionsReady_iff:
  "conditionsReady conditions nodeReady \<longleftrightarrow>
     nodeReady \<or> (\<exists>c \<in> set conditions. Cond_Type c = ''Ready'' \<and> Cond_Status c = ''True'')"
  by (induction conditions) (auto simp: NodeReady_def ConditionTrue_def)

lemma scanNodes_fst:
  "fst (scanNodes nodes (allReady, notReady)) \<longleftrightarrow>
     allReady \<and> (\<forall>node \<in> set nodes. conditionsReady (K8s_Conditions node) False)"
  by (induction nodes arbitrary: allReady notReady) auto






text \<open>The loop ends in one of three ways, each with the round that caused it.\<close>

lemma pollLoop_outcome:
  "(pollLoop e timeout k = None
      \<and> (\<exists>j\<ge>k. \<exists>items. selectCase e timeout j = CaseTick \<and> wait_List e j = Inr items
            \<and> items \<noteq> [] \<and> fst (scanNodes items (True, []))))
   \<or> (pollLoop e timeout k = Some (ContextErr (wait_CtxErr e))
      \<and> (\<exists>j\<ge>k. selectCase e timeout j = CaseDone))
   \<or> (pollLoop e timeout k = Some (TimeoutWaiting timeout)
      \<and> (\<exists>j\<ge>k. selectCase e timeout j = CaseTimeout))"
proof (induction e timeout k rule: pollLoop.induct)
  case (1 e timeout k)
  let ?goal = "\<lambda>k. (pollLoop e timeout k = None
      \<and> (\<exists>j\<ge>k. \<exists>items. selectCase e timeout j = CaseTick \<and> wait_List e j = Inr items
            \<and> items \<noteq> [] \<and> fst (scanNodes items (True, []))))
   \<or> (pollLoop e timeout k = Some (ContextErr (wait_CtxErr e))
      \<and> (\<exists>j\<ge>k. selectCase e timeout j = CaseDone))
   \<or> (pollLoop e timeout k = Some (TimeoutWaiting timeout)
      \<and> (\<exists>j\<ge>k. selectCase e timeout j = CaseTimeout))"
  have step: "?goal k" if "?goal (Suc k)" "pollLoop e timeout k = pollLoop e timeout (Suc k)"
    using that by (metis Suc_leD)
  show ?case
  proof (cases "selectCase e timeout k")
    case CaseDone
    then have "pollLoop e timeout k = Some (ContextErr (wait_CtxErr e))"
      by (simp add: pollLoop.simps)
    then show ?thesis using CaseDone by blast
  next
    case CaseTimeout
    then have "pollLoop e timeout k = Some (TimeoutWaiting timeout)"
      by (simp add: pollLoop.simps)
    then show ?thesis using CaseTimeout by blast
  next
    case CaseTick
    show ?thesis
    proof (cases "wait_List e k")
      case (Inl err)
      have "pollLoop e timeout k = pollLoop e timeout (Suc k)"
        using CaseTick Inl by (subst pollLoop.simps) simp
      then show ?thesis using "1.IH"(1) [OF CaseTick Inl] step by blast
    next
      case (Inr items)
      show ?thesis
      proof (cases "length items = 0")
        case True
        have "pollLoop e timeout k = pollLoop e timeout (Suc k)"
          using CaseTick Inr True by (subst pollLoop.simps) simp
        then show ?thesis using "1.IH"(2) [OF CaseTick Inr True] step by blast
      next
        case False
        show ?thesis
        proof (cases "fst (scanNodes items (True, []))")
          case True
          have "pollLoop e timeout k = None"
            using CaseTick Inr False True by (subst pollLoop.simps) simp
          then show ?thesis using CaseTick Inr False True by blast
        next
          case notready: False
          have "pollLoop e timeout k = pollLoop e timeout (Suc k)"
            using CaseTick Inr False notready by (subst pollLoop.simps) simp
          then show ?thesis using "1.IH"(3) [OF CaseTick Inr False notready] step by blast
        qed
      qed
    qed
  qed
qed

lemma waitForAllNodesReady_setup:
  "setupSucceeds e kubeconfigContent \<Longrightarrow>
     waitForAllNodesReady e kubeconfigContent timeout = pollLoop e timeout 0"
  by (auto simp: setupSucceeds_def waitForAllNodesReady_def split: sum.splits)

lemma waitForAllNodesReady_no_setup:
  "\<not> setupSucceeds e kubeconfigContent \<Longrightarrow>
     \<exists>prefix cause. waitForAllNodesReady e kubeconfigContent timeout = Some (Wrapped prefix cause)"
  by (auto simp: setupSucceeds_def waitForAllNodesReady_def split: sum.splits option.splits)


lemma allReady_iff:
  "fst (scanNodes items (True, [])) \<longleftrightarrow>
     (\<forall>node \<in> set items. \<exists>c \<in> set (K8s_Conditions node).
        Cond_Type c = ''Ready'' \<and> Cond_Status c = ''True'')"
  by (simp add: scanNodes_fst conditionsReady_iff)

text \<open>
  Claim C3. \<^verbatim>\<open>waitForAllNodesReady\<close> returns nil only if some round of the loop polled the
  status endpoint and the answer listed at least one node, every one of them with a
  condition of type Ready and status True. A round whose answer lists no node returns
  nothing: the loop goes on with the next round.
\<close>

theorem gate_success_only_when_ready:
  "(waitForAllNodesReady e kubeconfigContent timeout = None \<longrightarrow>
      (\<exists>k items. selectCase e timeout k = CaseTick \<and> wait_List e k = Inr items
         \<and> length items \<ge> 1
         \<and> (\<forall>node \<in> set items. \<exists>c \<in> set (K8s_Conditions node).
               Cond_Type c = ''Ready'' \<and> Cond_Status c = ''True'')))
   \<and> (selectCase e timeout k = CaseTick \<longrightarrow> wait_List e k = Inr [] \<longrightarrow>
        pollLoop e timeout k = pollLoop e timeout (Suc k))"
proof -
  have success: "\<exists>k items. selectCase e timeout k = CaseTick \<and> wait_List e k = Inr items
         \<and> length items \<ge> 1
         \<and> (\<forall>node \<in> set items. \<exists>c \<in> set (K8s_Conditions node).
               Cond_Type c = ''Ready'' \<and> Cond_Status c = ''True'')"
    if none: "waitForAllNodesReady e kubeconfigContent timeout = None"
  proof -
    have "setupSucceeds e kubeconfigContent"
      using none waitForAllNodesReady_no_setup [of e kubeconfigContent timeout] by auto
    then have "pollLoop e timeout 0 = None"
      using none by (simp add: waitForAllNodesReady_setup)
    then obtain j items where "selectCase e timeout j = CaseTick" "wait_List e j = Inr items"
      "items \<noteq> []" "fst (scanNodes items (True, []))"
      using pollLoop_outcome [of e timeout 0] by auto
    then show ?thesis
      by (auto simp: allReady_iff Suc_le_eq intro!: exI [of _ j] exI [of _ items])
  qed
  have empty: "pollLoop e timeout k = pollLoop e timeout (Suc k)"
    if "selectCase e timeout k = CaseTick" "wait_List e k = Inr []"
    using that by (subst pollLoop.simps) simp
  show ?thesis using success empty by blast
qed

lemma emptyThenReady_run:
  "pollLoop (exampleWait None emptyThenReady) (300 * Second) 0 = None"
  "selectCase (exampleWait None emptyThenReady) (300 * Second) 0 = CaseTick"
  "wait_List (exampleWait None emptyThenReady) 0 = Inr []"
  by (simp_all add: pollLoop.simps selectCase_def readyCases_def wakeTime_def Let_def
      tickInterval_def Second_def exampleWait_def emptyThenReady_def readyNode_def
      NodeReady_def ConditionTrue_def)

text \<open>C3 at an endpoint that lists no node at the first poll and two ready nodes at the second.\<close>

theorem gate_success_only_when_ready_witness:
  "waitForAllNodesReady (exampleWait None emptyThenReady) ''kubeconfig of dev'' (300 * Second) = None
   \<and> pollLoop (exampleWait None emptyThenReady) (300 * Second) 0
       = pollLoop (exampleWait None emptyThenReady) (300 * Second) (Suc 0)
   \<and> (\<exists>k items. wait_List (exampleWait None emptyThenReady) k = Inr items \<and> length items \<ge> 1
         \<and> selectCase (exampleWait None emptyThenReady) (300 * Second) k = CaseTick)"
proof -
  have prepared: "setupSucceeds (exampleWait None emptyThenReady) ''kubeconfig of dev''"
    by (simp add: setupSucceeds_def exampleWait_def)
  have none: "waitForAllNodesReady (exampleWait None emptyThenReady) ''kubeconfig of dev''
                (300 * Second) = None"
    using prepared emptyThenReady_run(1) by (simp add: waitForAllNodesReady_setup)
  show ?thesis
    using gate_success_only_when_ready [of "exampleWait None emptyThenReady"
        "''kubeconfig of dev''" "300 * Second" 0] none emptyThenReady_run(2,3)
    by blast
qed




lemma timedout_run:
  "pollLoop (exampleWait None neverReady) (7 * Second) 0 = Some (TimeoutWaiting (7 * Second))"
  by (simp add: pollLoop.simps selectCase_def readyCases_def wakeTime_def Let_def
      tickInterval_def Second_def exampleWait_def neverReady_def readyNode_def pendingNode_def
      NodeReady_def ConditionTrue_def)






section \<open>Properties of the credential bundle and of Create\<close>

text \<open>The example plan waits 7 seconds; its bundle has a cluster entry and no user entry.\<close>

lemma secondsDuration_7: "secondsDuration 7 = 7 * Second"
  by (simp add: secondsDuration_def Second_def)

lemma populate_example:
  "os_UserHomeDir os = Inr ''/home/u'' \<Longrightarrow>
   populateComputedValues (exampleEnv listProvider w) os [''dev'']
     (exampleModel\<lparr>Model_WaitForReady := Known 7\<rparr>) []
   = (exampleModel\<lparr>Model_WaitForReady := Known 7, Model_ID := Known ''dev'',
        Model_Kubeconfig := Known ''kubeconfig of dev'',
        Model_KubeconfigPath := Known ''/home/u/.kube/kind/kind-dev'',
        Model_Endpoint := Known ''https://127.0.0.1:6443'',
        Model_ClusterCaCertificate := Known ''Q0E=''\<rparr>, [])"
  by (simp add: populateComputedValues_def exampleEnv_def listProvider_def
      exampleModel_def exampleUnmarshal_def tokenBundle_def setNullsToEmpty_def
      setUserFields_def setClusterFields_def firstEntryInfo_def stringField_def
      ValueString_def IsNull_def Let_def)

text \<open>
  Claim C2 at a failing input. The plan of a Create holds the computed attributes as
  unknown values. The bundle parses and has no \<open>users\<close> section. The client certificate and
  the client key stay unknown instead of becoming the empty string, since the closing
  checks test \<^verbatim>\<open>IsNull()\<close> only; no error is reported.
\<close>

theorem credentials_unknown_kept:
  "env_yaml_Unmarshal (exampleEnv listProvider (exampleWait None alwaysReady)) ''kubeconfig of dev''
     = Inr tokenBundle
   \<and> map_of tokenBundle ''users'' = None
   \<and> Model_ClientCertificate exampleModel = Unknown
   \<and> Model_ClientKey exampleModel = Unknown
   \<and> Model_ClientCertificate
        (fst (populateComputedValues (exampleEnv listProvider (exampleWait None alwaysReady))
                (exampleOS 0) [''dev''] exampleModel [])) = Unknown
   \<and> Model_ClientKey
        (fst (populateComputedValues (exampleEnv listProvider (exampleWait None alwaysReady))
                (exampleOS 0) [''dev''] exampleModel [])) = Unknown
   \<and> snd (populateComputedValues (exampleEnv listProvider (exampleWait None alwaysReady))
             (exampleOS 0) [''dev''] exampleModel []) = []"
  by (simp add: populateComputedValues_def exampleEnv_def listProvider_def exampleOS_def
      exampleModel_def exampleUnmarshal_def tokenBundle_def setNullsToEmpty_def
      setUserFields_def setClusterFields_def firstEntryInfo_def stringField_def
      ValueString_def IsNull_def Let_def)

text \<open>Diagnostics, and the fields the closing checks and the extraction leave alone.\<close>

lemma HasError_AddError: "HasError (AddError diags summary detail)"
  by (induction diags) (simp_all add: AddError_def)

lemma HasError_append: "HasError (ds @ es) \<longleftrightarrow> HasError ds \<or> HasError es"
  by (induction ds) simp_all

lemma setNullsToEmpty_fields:
  "Model_Endpoint (setNullsToEmpty d)
     = (if IsNull (Model_Endpoint d) then Known [] else Model_Endpoint d)"
  "Model_ClusterCaCertificate (setNullsToEmpty d)
     = (if IsNull (Model_ClusterCaCertificate d) then Known [] else Model_ClusterCaCertificate d)"
  "Model_ClientCertificate (setNullsToEmpty d)
     = (if IsNull (Model_ClientCertificate d) then Known [] else Model_ClientCertificate d)"
  "Model_ClientKey (setNullsToEmpty d)
     = (if IsNull (Model_ClientKey d) then Known [] else Model_ClientKey d)"
  by (simp_all add: setNullsToEmpty_def Let_def)

lemma setNullsToEmpty_wait:
  "Model_WaitForNodesReady (setNullsToEmpty d) = Model_WaitForNodesReady d"
  "Model_WaitForReady (setNullsToEmpty d) = Model_WaitForReady d"
  by (simp_all add: setNullsToEmpty_def Let_def)

lemma setFields_wait:
  "Model_WaitForNodesReady (setClusterFields doc d) = Model_WaitForNodesReady d"
  "Model_WaitForReady (setClusterFields doc d) = Model_WaitForReady d"
  "Model_WaitForNodesReady (setUserFields doc d) = Model_WaitForNodesReady d"
  "Model_WaitForReady (setUserFields doc d) = Model_WaitForReady d"
  by (simp_all add: setClusterFields_def setUserFields_def Let_def split: option.splits)

lemma populate_wait:
  "Model_WaitForNodesReady (fst (populateComputedValues env os b data diags))
     = Model_WaitForNodesReady data"
  "Model_WaitForReady (fst (populateComputedValues env os b data diags))
     = Model_WaitForReady data"
  by (simp_all add: populateComputedValues_def Let_def setNullsToEmpty_wait setFields_wait
      split: sum.splits)

text \<open>
  The parts of C2 that hold: a bundle that does not parse gives the error
  \<open>Failed to parse kubeconfig\<close> and leaves the four derived fields as they were; and a derived
  field that is absent from the bundle becomes the empty string when it was null before,
  and keeps its value otherwise.
\<close>

lemma populate_parse_failure:
  assumes "provider_KubeConfig (env_provider env) (ValueString (Model_Name data)) False b
             = Inr kubeconfig"
    and "os_UserHomeDir os = Inr homeDir"
    and "env_yaml_Unmarshal env kubeconfig = Inl err"
  shows "snd (populateComputedValues env os b data diags)
           = AddError diags ''Failed to parse kubeconfig'' (Error (env_fmtDuration env) err)"
    and "HasError (snd (populateComputedValues env os b data diags))"
    and "Model_Endpoint (fst (populateComputedValues env os b data diags)) = Model_Endpoint data"
    and "Model_ClusterCaCertificate (fst (populateComputedValues env os b data diags))
           = Model_ClusterCaCertificate data"
    and "Model_ClientCertificate (fst (populateComputedValues env os b data diags))
           = Model_ClientCertificate data"
    and "Model_ClientKey (fst (populateComputedValues env os b data diags)) = Model_ClientKey data"
  using assms by (simp_all add: populateComputedValues_def Let_def HasError_AddError)

lemma populate_absent_null:
  assumes "provider_KubeConfig (env_provider env) (ValueString (Model_Name data)) False b
             = Inr kubeconfig"
    and "os_UserHomeDir os = Inr homeDir"
    and "env_yaml_Unmarshal env kubeconfig = Inr doc"
    and "firstEntryInfo doc ''users'' ''user'' = None"
  shows "snd (populateComputedValues env os b data diags) = diags"
    and "Model_ClientCertificate data = Null \<Longrightarrow>
           Model_ClientCertificate (fst (populateComputedValues env os b data diags)) = Known []"
    and "Model_ClientKey data = Null \<Longrightarrow>
           Model_ClientKey (fst (populateComputedValues env os b data diags)) = Known []"
    and "\<not> IsNull (Model_ClientKey data) \<Longrightarrow>
           Model_ClientKey (fst (populateComputedValues env os b data diags)) = Model_ClientKey data"
  using assms
  by (simp_all add: populateComputedValues_def Let_def setNullsToEmpty_fields setUserFields_def
      setClusterFields_def IsNull_def split: option.splits)

text \<open>Lock recovery does not touch the home directory setting.\<close>

lemma cleanup_home: "os_UserHomeDir (cleanupStaleLockFile os) = os_UserHomeDir os"
  by (simp add: cleanupStaleLockFile_def os_Remove_def Let_def split: sum.splits option.splits)

text \<open>
  Claim C6. When the plan decodes and the backend's create fails, Create returns exactly
  one more diagnostic, an error with summary \<open>Failed to create cluster\<close> whose detail is the
  backend error's message as it is; the credential extraction is not run and the response
  state stays unset.
\<close>

theorem create_backend_failure:
  "\<not> HasError (Req_PlanGetDiags req) \<Longrightarrow>
   provider_Create (env_provider env) (ValueString (Model_Name (Req_Plan req)))
       (createOpts (Req_Plan req) (buildClusterConfig (Req_Plan req))) b0 = (Some err, b1) \<Longrightarrow>
   Create env os0 b0 req
     = (\<lparr>Resp_Diagnostics = Req_PlanGetDiags req
            @ [\<lparr>Diag_Severity = SeverityError, Diag_Summary = ''Failed to create cluster'',
                 Diag_Detail = Error (env_fmtDuration env) err\<rparr>],
          Resp_State = None\<rparr>, cleanupStaleLockFile os0, b1)
   \<and> HasError (Resp_Diagnostics (fst (Create env os0 b0 req)))
   \<and> Resp_State (fst (Create env os0 b0 req)) = None
   \<and> (err = External msg \<longrightarrow>
        Diag_Detail (last (Resp_Diagnostics (fst (Create env os0 b0 req)))) = msg)"
  by (simp add: Create_def Let_def AddError_def HasError_append)

text \<open>C6 at a backend that fails with \<open>image not found\<close>.\<close>

theorem create_backend_failure_witness:
  "Create (exampleEnv (failingProvider ''image not found'') (exampleWait None alwaysReady))
       (exampleOS 0) [] exampleRequest
     = (\<lparr>Resp_Diagnostics =
            [\<lparr>Diag_Severity = SeverityError, Diag_Summary = ''Failed to create cluster'',
               Diag_Detail = ''image not found''\<rparr>],
          Resp_State = None\<rparr>, cleanupStaleLockFile (exampleOS 0), [])"
proof -
  have nodiag: "\<not> HasError (Req_PlanGetDiags exampleRequest)"
    by (simp add: exampleRequest_def)
  have fails: "provider_Create
        (env_provider (exampleEnv (failingProvider ''image not found'') (exampleWait None alwaysReady)))
        (ValueString (Model_Name (Req_Plan exampleRequest)))
        (createOpts (Req_Plan exampleRequest) (buildClusterConfig (Req_Plan exampleRequest))) []
      = (Some (External ''image not found''), [])"
    by (simp add: exampleEnv_def failingProvider_def listProvider_def)
  show ?thesis
    using create_backend_failure [OF nodiag fails, of "exampleOS 0" "''image not found''"]
    by (simp add: exampleRequest_def exampleEnv_def)
qed

text \<open>Create, once the backend has created the cluster and the credentials are extracted.\<close>

lemma Create_after_populate:
  assumes "\<not> HasError (Req_PlanGetDiags req)"
    and "provider_Create (env_provider env) (ValueString (Model_Name (Req_Plan req)))
           (createOpts (Req_Plan req) (buildClusterConfig (Req_Plan req))) b0 = (None, b1)"
    and "populateComputedValues env (cleanupStaleLockFile os0) b1 (Req_Plan req)
           (Req_PlanGetDiags req) = (data', diags1)"
    and "\<not> HasError diags1"
    and "Model_WaitForNodesReady data' = Known True"
  shows "Create env os0 b0 req =
     (case waitForAllNodesReady (env_wait env) (ValueString (Model_Kubeconfig data'))
             (secondsDuration (ValueInt64 (Model_WaitForReady data'))) of
        Some err \<Rightarrow>
          (\<lparr>Resp_Diagnostics = diags1
               @ [\<lparr>Diag_Severity = SeverityError,
                    Diag_Summary = ''Failed waiting for nodes to be ready'',
                    Diag_Detail = Error (env_fmtDuration env) err\<rparr>],
             Resp_State = None\<rparr>, cleanupStaleLockFile os0, b1)
      | None \<Rightarrow>
          (\<lparr>Resp_Diagnostics = diags1, Resp_State = Some data'\<rparr>, cleanupStaleLockFile os0, b1))"
  using assms
  by (simp add: Create_def Let_def AddError_def IsNull_def ValueBool_def split: option.splits)

text \<open>
  Claim C5 as stated fails: after a successful create and a readiness gate that times out,
  the backend holds the cluster and the error is reported, but the response state is unset:
  nothing is recorded in tracked state.
\<close>

theorem create_gate_failure_counterexample:
  "Resp_State (fst (Create (exampleEnv listProvider (exampleWait None neverReady))
                      (exampleOS 0) [] exampleRequest)) = None
   \<and> snd (snd (Create (exampleEnv listProvider (exampleWait None neverReady))
                      (exampleOS 0) [] exampleRequest)) = [''dev'']
   \<and> map Diag_Summary (Resp_Diagnostics (fst (Create (exampleEnv listProvider
        (exampleWait None neverReady)) (exampleOS 0) [] exampleRequest)))
       = [''Failed waiting for nodes to be ready'']"
proof -
  let ?env = "exampleEnv listProvider (exampleWait None neverReady)"
  let ?data = "exampleModel\<lparr>Model_WaitForReady := Known 7, Model_ID := Known ''dev'',
                  Model_Kubeconfig := Known ''kubeconfig of dev'',
                  Model_KubeconfigPath := Known ''/home/u/.kube/kind/kind-dev'',
                  Model_Endpoint := Known ''https://127.0.0.1:6443'',
                  Model_ClusterCaCertificate := Known ''Q0E=''\<rparr>"
  have wait: "waitForAllNodesReady (env_wait ?env) (ValueString (Model_Kubeconfig ?data))
                (secondsDuration (ValueInt64 (Model_WaitForReady ?data)))
                = Some (TimeoutWaiting (7 * Second))"
    using timedout_run
    by (simp add: waitForAllNodesReady_setup setupSucceeds_def exampleWait_def exampleEnv_def
        ValueString_def ValueInt64_def secondsDuration_7)
  have home: "os_UserHomeDir (cleanupStaleLockFile (exampleOS 0)) = Inr ''/home/u''"
    by (simp add: cleanup_home exampleOS_def)
  have pop: "populateComputedValues ?env (cleanupStaleLockFile (exampleOS 0)) [''dev'']
               (Req_Plan exampleRequest) (Req_PlanGetDiags exampleRequest) = (?data, [])"
    using populate_example [OF home] by (simp add: exampleRequest_def)
  have created: "provider_Create (env_provider ?env)
        (ValueString (Model_Name (Req_Plan exampleRequest)))
        (createOpts (Req_Plan exampleRequest) (buildClusterConfig (Req_Plan exampleRequest))) []
      = (None, [''dev''])"
    by (simp add: exampleEnv_def listProvider_def exampleRequest_def exampleModel_def
        ValueString_def)
  have enabled: "Model_WaitForNodesReady ?data = Known True"
    by (simp add: exampleModel_def)
  have nodiag: "\<not> HasError (Req_PlanGetDiags exampleRequest)" "\<not> HasError []"
    by (simp_all add: exampleRequest_def)
  have "Create ?env (exampleOS 0) [] exampleRequest
          = (\<lparr>Resp_Diagnostics = []
               @ [\<lparr>Diag_Severity = SeverityError,
                    Diag_Summary = ''Failed waiting for nodes to be ready'',
                    Diag_Detail = Error (env_fmtDuration ?env) (TimeoutWaiting (7 * Second))\<rparr>],
             Resp_State = None\<rparr>, cleanupStaleLockFile (exampleOS 0), [''dev''])"
    unfolding Create_after_populate [OF nodiag(1) created pop nodiag(2) enabled] wait
    by simp
  then show ?thesis by simp
qed

text \<open>
  Claim C5, amended. When the backend's create succeeds, the credentials are extracted
  without error, the wait is enabled and the readiness gate fails, Create adds one error
  with summary \<open>Failed waiting for nodes to be ready\<close> and the gate error's message, leaves
  the backend in the state the create produced (no delete is issued), and returns before
  \<^verbatim>\<open>resp.State.Set\<close>: the response state stays unset.
\<close>

theorem create_gate_failure:
  "\<not> HasError (Req_PlanGetDiags req) \<Longrightarrow>
   provider_Create (env_provider env) (ValueString (Model_Name (Req_Plan req)))
       (createOpts (Req_Plan req) (buildClusterConfig (Req_Plan req))) b0 = (None, b1) \<Longrightarrow>
   populateComputedValues env (cleanupStaleLockFile os0) b1 (Req_Plan req) (Req_PlanGetDiags req)
     = (data', diags1) \<Longrightarrow>
   \<not> HasError diags1 \<Longrightarrow>
   Model_WaitForNodesReady (Req_Plan req) = Known True \<Longrightarrow>
   waitForAllNodesReady (env_wait env) (ValueString (Model_Kubeconfig data'))
       (secondsDuration (ValueInt64 (Model_WaitForReady (Req_Plan req)))) = Some err \<Longrightarrow>
   Create env os0 b0 req
     = (\<lparr>Resp_Diagnostics = diags1
            @ [\<lparr>Diag_Severity = SeverityError,
                 Diag_Summary = ''Failed waiting for nodes to be ready'',
                 Diag_Detail = Error (env_fmtDuration env) err\<rparr>],
          Resp_State = None\<rparr>, cleanupStaleLockFile os0, b1)
   \<and> HasError (Resp_Diagnostics (fst (Create env os0 b0 req)))
   \<and> Resp_State (fst (Create env os0 b0 req)) = None
   \<and> snd (snd (Create env os0 b0 req)) = b1"
proof -
  assume a: "\<not> HasError (Req_PlanGetDiags req)"
    "provider_Create (env_provider env) (ValueString (Model_Name (Req_Plan req)))
       (createOpts (Req_Plan req) (buildClusterConfig (Req_Plan req))) b0 = (None, b1)"
    "populateComputedValues env (cleanupStaleLockFile os0) b1 (Req_Plan req) (Req_PlanGetDiags req)
     = (data', diags1)"
    "\<not> HasError diags1"
    "Model_WaitForNodesReady (Req_Plan req) = Known True"
    "waitForAllNodesReady (env_wait env) (ValueString (Model_Kubeconfig data'))
       (secondsDuration (ValueInt64 (Model_WaitForReady (Req_Plan req)))) = Some err"
  have keep: "Model_WaitForNodesReady data' = Model_WaitForNodesReady (Req_Plan req)"
    "Model_WaitForReady data' = Model_WaitForReady (Req_Plan req)"
    using populate_wait [of env "cleanupStaleLockFile os0" b1 "Req_Plan req" "Req_PlanGetDiags req"]
      a(3) by simp_all
  have enabled: "Model_WaitForNodesReady data' = Known True"
    using keep(1) a(5) by simp
  show ?thesis
    using a(6)
    by (simp add: Create_after_populate [OF a(1) a(2) a(3) a(4) enabled] keep(2) HasError_append)
qed

text \<open>C5 amended at a gate that times out after 7 seconds.\<close>

theorem create_gate_failure_witness:
  "Create (exampleEnv listProvider (exampleWait None neverReady)) (exampleOS 0) [] exampleRequest
     = (\<lparr>Resp_Diagnostics =
            [\<lparr>Diag_Severity = SeverityError,
               Diag_Summary = ''Failed waiting for nodes to be ready'',
               Diag_Detail = ''timeout waiting for nodes to be ready after 7s''\<rparr>],
          Resp_State = None\<rparr>, cleanupStaleLockFile (exampleOS 0), [''dev''])"
proof -
  let ?env = "exampleEnv listProvider (exampleWait None neverReady)"
  let ?data = "exampleModel\<lparr>Model_WaitForReady := Known 7, Model_ID := Known ''dev'',
                  Model_Kubeconfig := Known ''kubeconfig of dev'',
                  Model_KubeconfigPath := Known ''/home/u/.kube/kind/kind-dev'',
                  Model_Endpoint := Known ''https://127.0.0.1:6443'',
                  Model_ClusterCaCertificate := Known ''Q0E=''\<rparr>"
  have wait: "waitForAllNodesReady (env_wait ?env) (ValueString (Model_Kubeconfig ?data))
                (secondsDuration (ValueInt64 (Model_WaitForReady (Req_Plan exampleRequest))))
                = Some (TimeoutWaiting (7 * Second))"
    using timedout_run
    by (simp add: waitForAllNodesReady_setup setupSucceeds_def exampleWait_def exampleEnv_def
        exampleRequest_def ValueString_def ValueInt64_def secondsDuration_7)
  have home: "os_UserHomeDir (cleanupStaleLockFile (exampleOS 0)) = Inr ''/home/u''"
    by (simp add: cleanup_home exampleOS_def)
  have pop: "populateComputedValues ?env (cleanupStaleLockFile (exampleOS 0)) [''dev'']
               (Req_Plan exampleRequest) (Req_PlanGetDiags exampleRequest) = (?data, [])"
    using populate_example [OF home] by (simp add: exampleRequest_def)
  have created: "provider_Create (env_provider ?env)
        (ValueString (Model_Name (Req_Plan exampleRequest)))
        (createOpts (Req_Plan exampleRequest) (buildClusterConfig (Req_Plan exampleRequest))) []
      = (None, [''dev''])"
    by (simp add: exampleEnv_def listProvider_def exampleRequest_def exampleModel_def
        ValueString_def)
  have enabled: "Model_WaitForNodesReady (Req_Plan exampleRequest) = Known True"
    by (simp add: exampleRequest_def exampleModel_def)
  have nodiag: "\<not> HasError (Req_PlanGetDiags exampleRequest)" "\<not> HasError []"
    by (simp_all add: exampleRequest_def)
  show ?thesis
    using create_gate_failure [OF nodiag(1) created pop nodiag(2) enabled wait]
    by (simp add: exampleEnv_def)
qed

end
